theory Spec2Isabelle
  imports Complex_Main "HOL-Library.Word"
begin

section \<open>JavaScript strings and values\<close>

text \<open>
  A JavaScript string is a sequence of 16-bit code units: \<open>length\<close>, \<open>slice\<close> and the
  regular expressions of the source (none has the \<open>u\<close> flag) all count code units.
  \<open>str\<close> embeds an ASCII literal of the source.
\<close>

type_synonym jschar = "16 word"
type_synonym jsstring = "jschar list"

abbreviation ch :: "char \<Rightarrow> jschar" where
  "ch c \<equiv> of_char c"

definition str :: "string \<Rightarrow> jsstring" where
  "str s = map of_char s"

text \<open>
  The values \<open>JSON.parse\<close> can return, and \<open>undefined\<close> for a property that is not
  there. A number carries the exact value of its literal; the double it denotes is zero
  exactly when that value is at most \<open>2^-1075\<close> in magnitude (round to nearest, ties to
  even), which is all the source ever observes of a number. An object keeps its members
  in the order of the text; a property read takes the last member with the key, as a
  later duplicate overwrites an earlier one.
\<close>

datatype jsval =
    JUndefined
  | JNull
  | JBool bool
  | JNum rat
  | JStr jsstring
  | JArr "jsval list"
  | JObj "(jsstring \<times> jsval) list"

fun truthy :: "jsval \<Rightarrow> bool" where
  "truthy JUndefined = False"
| "truthy JNull = False"
| "truthy (JBool b) = b"
| "truthy (JNum q) = (\<bar>q\<bar> > 1 / 2 ^ 1075)"
| "truthy (JStr s) = (s \<noteq> [])"
| "truthy (JArr xs) = True"
| "truthy (JObj kvs) = True"

text \<open>\<open>a || b\<close>\<close>

definition js_or :: "jsval \<Rightarrow> jsval \<Rightarrow> jsval" where
  "js_or a b = (if truthy a then a else b)"

text \<open>
  \<open>v.k\<close> for the four keys the source reads (\<open>name\<close>, \<open>description\<close>,
  \<open>htmlContent\<close>, \<open>cssContent\<close>): an own property of an object, and \<open>undefined\<close> on
  every other truthy value, whose prototypes have no property of these names.
\<close>

fun field :: "jsval \<Rightarrow> jsstring \<Rightarrow> jsval" where
  "field (JObj kvs) k = (case map_of (rev kvs) k of Some v \<Rightarrow> v | None \<Rightarrow> JUndefined)"
| "field v k = JUndefined"

section \<open>Matching\<close>

text \<open>The class \<open>\s\<close> of an ECMAScript regular expression.\<close>

definition is_space :: "jschar \<Rightarrow> bool" where
  "is_space c \<longleftrightarrow>
     c \<in> {0x9, 0xA, 0xB, 0xC, 0xD, 0x20, 0xA0, 0x1680, 0x2028, 0x2029, 0x202F, 0x205F,
          0x3000, 0xFEFF}
     \<or> (0x2000 \<le> c \<and> c \<le> 0x200A)"

fun starts_with :: "jsstring \<Rightarrow> jsstring \<Rightarrow> bool" where
  "starts_with cs [] = True"
| "starts_with [] (p # ps) = False"
| "starts_with (c # cs) (p # ps) = (c = p \<and> starts_with cs ps)"

text \<open>The text after the first occurrence of \<open>p\<close>.\<close>

fun after_first :: "jsstring \<Rightarrow> jsstring \<Rightarrow> jsstring option" where
  "after_first p [] = (if p = [] then Some [] else None)"
| "after_first p (c # cs) =
     (if starts_with (c # cs) p then Some (drop (length p) (c # cs)) else after_first p cs)"

text \<open>
  A lazy group \<open>([\s\S]*?)\<close> followed by the rest of a pattern: the shortest prefix
  after which the rest matches.
\<close>

fun lazy_until :: "(jsstring \<Rightarrow> bool) \<Rightarrow> jsstring \<Rightarrow> jsstring option" where
  "lazy_until stop [] = (if stop [] then Some [] else None)"
| "lazy_until stop (c # cs) =
     (if stop (c # cs) then Some [] else map_option (Cons c) (lazy_until stop cs))"

text \<open>An unanchored pattern is tried at every position from the left.\<close>

fun leftmost :: "(jsstring \<Rightarrow> 'a option) \<Rightarrow> jsstring \<Rightarrow> 'a option" where
  "leftmost m [] = m []"
| "leftmost m (c # cs) = (case m (c # cs) of Some r \<Rightarrow> Some r | None \<Rightarrow> leftmost m cs)"

text \<open>
  \<open>/\{[\s\S]*\}/\<close> and \<open>/<[\s\S]*>/\<close>: a greedy \<open>[\s\S]*\<close> between two characters
  matches from the first opening character to the last closing one after it. The result
  is the match and the text after it.
\<close>

definition span_greedy :: "jschar \<Rightarrow> jschar \<Rightarrow> jsstring \<Rightarrow> (jsstring \<times> jsstring) option" where
  "span_greedy opn cls text =
     (case dropWhile (\<lambda>c. c \<noteq> opn) text of
        [] \<Rightarrow> None
      | c # cs \<Rightarrow>
          if cls \<in> set cs
          then Some (c # rev (dropWhile (\<lambda>d. d \<noteq> cls) (rev cs)),
                     rev (takeWhile (\<lambda>d. d \<noteq> cls) (rev cs)))
          else None)"

text \<open>
  The \<open>g\<close> flag: every match, each search starting where the previous match ended. A
  match has at least two characters, so the length of the text bounds the number of
  rounds.
\<close>

fun match_all :: "nat \<Rightarrow> (jsstring \<Rightarrow> (jsstring \<times> jsstring) option) \<Rightarrow> jsstring \<Rightarrow> jsstring list" where
  "match_all 0 m text = []"
| "match_all (Suc n) m text =
     (case m text of None \<Rightarrow> [] | Some (hit, rest) \<Rightarrow> hit # match_all n m rest)"

text \<open>\<open>text.match(/<[\s\S]*>/g)\<close>: \<open>null\<close> when there is no match.\<close>

definition htmlOnly_match :: "jsstring \<Rightarrow> jsstring list option" where
  "htmlOnly_match text =
     (let hits = match_all (length text) (span_greedy (ch CHR ''<'') (ch CHR ''>'')) text
      in if hits = [] then None else Some hits)"

text \<open>\<open>Array.prototype.join\<close>\<close>

fun js_join :: "jsstring \<Rightarrow> jsstring list \<Rightarrow> jsstring" where
  "js_join sep [] = []"
| "js_join sep [x] = x"
| "js_join sep (x # y # ys) = x @ sep @ js_join sep (y # ys)"

text \<open>
  Group 1 of \<open>/```(?:json)?\s*\n?([\s\S]*?)\n?\s*```/\<close>. The match starts at the first
  fence. \<open>json\<close> and the white space after it are taken greedily and never given back:
  they hold no backquote, so a closing fence cannot start inside them. \<open>\n?\<close> then has
  nothing to take. The lazy group ends at the first position from which white space
  and a fence follow (\<open>\n?\s*\<close> matches exactly the runs of white space).
\<close>

definition closes_fence :: "jsstring \<Rightarrow> bool" where
  "closes_fence cs = starts_with (dropWhile is_space cs) (str ''```'')"

definition codeBlockMatch :: "jsstring \<Rightarrow> jsstring option" where
  "codeBlockMatch text =
     (case after_first (str ''```'') text of
        None \<Rightarrow> None
      | Some a \<Rightarrow>
          let b = (if starts_with a (str ''json'') then drop 4 a else a)
          in lazy_until closes_fence (dropWhile is_space b))"

text \<open>\<open>/\{[\s\S]*\}/\<close>, group 0.\<close>

definition jsonMatch :: "jsstring \<Rightarrow> jsstring option" where
  "jsonMatch text = map_option fst (span_greedy (ch CHR ''{'') (ch CHR ''}'') text)"

text \<open>
  The common head \<open>"key"\s*:\s*"\<close> of the four field patterns, at the start of \<open>cs\<close>:
  the text after the opening quote of the value. A colon and a quote are no white space,
  so each \<open>\s*\<close> takes the whole run.
\<close>

definition field_head :: "jsstring \<Rightarrow> jsstring \<Rightarrow> jsstring option" where
  \<open>field_head key cs =
     (if starts_with cs key then
        (case dropWhile is_space (drop (length key) cs) of
           [] \<Rightarrow> None
         | c # r \<Rightarrow>
             if c = ch CHR '':'' then
               (case dropWhile is_space r of
                  [] \<Rightarrow> None
                | d # r' \<Rightarrow> if d = ch CHR ''"'' then Some r' else None)
             else None)
      else None)\<close>

text \<open>Group 1 of \<open>/"key"\s*:\s*"([^"]*)"/\<close>, for \<open>name\<close>, \<open>description\<close>, \<open>cssContent\<close>.\<close>

definition plain_field_at :: "jsstring \<Rightarrow> jsstring \<Rightarrow> jsstring option" where
  \<open>plain_field_at key cs =
     (case field_head key cs of
        None \<Rightarrow> None
      | Some v \<Rightarrow> if ch CHR ''"'' \<in> set v then Some (takeWhile (\<lambda>c. c \<noteq> ch CHR ''"'') v) else None)\<close>

definition nameMatch :: "jsstring \<Rightarrow> jsstring option" where
  \<open>nameMatch text = leftmost (plain_field_at (str ''"name"'')) text\<close>

definition descMatch :: "jsstring \<Rightarrow> jsstring option" where
  \<open>descMatch text = leftmost (plain_field_at (str ''"description"'')) text\<close>

definition cssMatch :: "jsstring \<Rightarrow> jsstring option" where
  \<open>cssMatch text = leftmost (plain_field_at (str ''"cssContent"'')) text\<close>

text \<open>
  Group 1 of \<open>/"htmlContent"\s*:\s*"([\s\S]*?)"(?:,\s*"|\s*})/\<close>: the value runs to the
  first quote that is followed by a comma, white space and a quote, or by white space and
  a closing brace.
\<close>

definition html_end :: "jsstring \<Rightarrow> bool" where
  \<open>html_end cs =
     (case cs of
        [] \<Rightarrow> False
      | c # r \<Rightarrow>
          c = ch CHR ''"'' \<and>
          ((case r of
              [] \<Rightarrow> False
            | d # r' \<Rightarrow> d = ch CHR '','' \<and> starts_with (dropWhile is_space r') [ch CHR ''"''])
           \<or> starts_with (dropWhile is_space r) [ch CHR ''}'']))\<close>

definition html_field_at :: "jsstring \<Rightarrow> jsstring option" where
  \<open>html_field_at cs =
     (case field_head (str ''"htmlContent"'') cs of
        None \<Rightarrow> None
      | Some v \<Rightarrow> lazy_until html_end v)\<close>

definition htmlMatch :: "jsstring \<Rightarrow> jsstring option" where
  "htmlMatch text = leftmost html_field_at text"

section \<open>\<open>JSON.parse\<close>\<close>

text \<open>
  The JSON grammar of ECMA-404, as \<open>JSON.parse\<close> applies it to a string: \<open>None\<close> is
  the thrown \<open>SyntaxError\<close>.
\<close>

definition is_json_ws :: "jschar \<Rightarrow> bool" where
  "is_json_ws c \<longleftrightarrow> c \<in> {0x20, 0x9, 0xA, 0xD}"

definition skip_ws :: "jsstring \<Rightarrow> jsstring" where
  "skip_ws cs = dropWhile is_json_ws cs"

definition is_digit :: "jschar \<Rightarrow> bool" where
  "is_digit c \<longleftrightarrow> ch CHR ''0'' \<le> c \<and> c \<le> ch CHR ''9''"

definition hex_val :: "jschar \<Rightarrow> nat option" where
  "hex_val c =
     (if ch CHR ''0'' \<le> c \<and> c \<le> ch CHR ''9'' then Some (unat c - 48)
      else if ch CHR ''a'' \<le> c \<and> c \<le> ch CHR ''f'' then Some (unat c - 87)
      else if ch CHR ''A'' \<le> c \<and> c \<le> ch CHR ''F'' then Some (unat c - 55)
      else None)"

text \<open>The four hexadecimal digits of \<open>\uXXXX\<close>.\<close>

definition hex4 :: "jschar \<Rightarrow> jschar \<Rightarrow> jschar \<Rightarrow> jschar \<Rightarrow> jschar option" where
  "hex4 a b c d =
     (case (hex_val a, hex_val b, hex_val c, hex_val d) of
        (Some x3, Some x2, Some x1, Some x0) \<Rightarrow> Some (of_nat (x3 * 4096 + x2 * 256 + x1 * 16 + x0))
      | _ \<Rightarrow> None)"

text \<open>The character after a backslash, \<open>u\<close> apart.\<close>

definition unescape :: "jschar \<Rightarrow> jschar option" where
  \<open>unescape e =
     (if e = ch CHR ''"'' then Some 0x22
      else if e = ch CHR 0x5C then Some 0x5C
      else if e = ch CHR ''/'' then Some 0x2F
      else if e = ch CHR ''b'' then Some 0x8
      else if e = ch CHR ''f'' then Some 0xC
      else if e = ch CHR ''n'' then Some 0xA
      else if e = ch CHR ''r'' then Some 0xD
      else if e = ch CHR ''t'' then Some 0x9
      else None)\<close>

text \<open>
  A string after its opening quote: its value and the text after the closing quote.
  A control character must be escaped.
\<close>

fun parse_chars :: "jsstring \<Rightarrow> (jsstring \<times> jsstring) option" where
  \<open>parse_chars [] = None\<close>
| \<open>parse_chars (c # cs) =
     (if c = ch CHR ''"'' then Some ([], cs)
      else if c = ch CHR 0x5C then
        (case cs of
           [] \<Rightarrow> None
         | e # es \<Rightarrow>
             if e = ch CHR ''u'' then
               (case es of
                  a # b # c' # d # rest \<Rightarrow>
                    (case hex4 a b c' d of
                       None \<Rightarrow> None
                     | Some w \<Rightarrow> map_option (\<lambda>(s, r). (w # s, r)) (parse_chars rest))
                | _ \<Rightarrow> None)
             else
               (case unescape e of
                  None \<Rightarrow> None
                | Some w \<Rightarrow> map_option (\<lambda>(s, r). (w # s, r)) (parse_chars es)))
      else if c < 0x20 then None
      else map_option (\<lambda>(s, r). (c # s, r)) (parse_chars cs))\<close>

text \<open>
  A number: \<open>-? (0 | [1-9][0-9]*) (. [0-9]+)? ([eE] [+-]? [0-9]+)?\<close>, with the exact
  value of the literal.
\<close>

definition digits_nat :: "jsstring \<Rightarrow> nat" where
  "digits_nat ds = foldl (\<lambda>a d. 10 * a + (unat d - 48)) 0 ds"

definition parse_int_part :: "jsstring \<Rightarrow> (nat \<times> jsstring) option" where
  "parse_int_part cs =
     (case cs of
        [] \<Rightarrow> None
      | c # r \<Rightarrow>
          if c = ch CHR ''0'' then Some (0, r)
          else if is_digit c then Some (digits_nat (takeWhile is_digit cs), dropWhile is_digit cs)
          else None)"

definition parse_frac :: "jsstring \<Rightarrow> (rat \<times> jsstring) option" where
  "parse_frac cs =
     (case cs of
        [] \<Rightarrow> Some (0, cs)
      | c # r \<Rightarrow>
          if c = ch CHR ''.'' then
            (let ds = takeWhile is_digit r
             in if ds = [] then None
                else Some (of_nat (digits_nat ds) / 10 ^ length ds, dropWhile is_digit r))
          else Some (0, cs))"

definition parse_exp :: "jsstring \<Rightarrow> (int \<times> jsstring) option" where
  "parse_exp cs =
     (case cs of
        [] \<Rightarrow> Some (0, cs)
      | c # r \<Rightarrow>
          if c = ch CHR ''e'' \<or> c = ch CHR ''E'' then
            (let (neg, r') =
                   (case r of
                      [] \<Rightarrow> (False, r)
                    | s # t \<Rightarrow>
                        if s = ch CHR ''-'' then (True, t)
                        else if s = ch CHR ''+'' then (False, t)
                        else (False, r));
                 ds = takeWhile is_digit r'
             in if ds = [] then None
                else Some ((if neg then - int (digits_nat ds) else int (digits_nat ds)),
                           dropWhile is_digit r'))
          else Some (0, cs))"

definition scale10 :: "rat \<Rightarrow> int \<Rightarrow> rat" where
  "scale10 q e = (if 0 \<le> e then q * 10 ^ nat e else q / 10 ^ nat (- e))"

definition parse_number :: "jsstring \<Rightarrow> (rat \<times> jsstring) option" where
  "parse_number cs =
     (let (neg, c1) =
            (case cs of
               [] \<Rightarrow> (False, cs)
             | c # r \<Rightarrow> if c = ch CHR ''-'' then (True, r) else (False, cs))
      in case parse_int_part c1 of
           None \<Rightarrow> None
         | Some (i, c2) \<Rightarrow>
             (case parse_frac c2 of
                None \<Rightarrow> None
              | Some (f, c3) \<Rightarrow>
                  (case parse_exp c3 of
                     None \<Rightarrow> None
                   | Some (e, c4) \<Rightarrow>
                       Some (scale10 (if neg then - (of_nat i + f) else of_nat i + f) e, c4))))"

text \<open>
  A value at the start of the text, with the text after it. The first argument bounds
  the number of nested calls; \<open>JSON_parse\<close> passes a bound that the text cannot exhaust.
  \<open>parse_elements\<close> reads the elements of an array after its opening bracket and
  \<open>parse_members\<close> the members of an object after its opening brace, both non-empty.
\<close>

fun parse_value :: "nat \<Rightarrow> jsstring \<Rightarrow> (jsval \<times> jsstring) option"
  and parse_elements :: "nat \<Rightarrow> jsstring \<Rightarrow> (jsval list \<times> jsstring) option"
  and parse_members :: "nat \<Rightarrow> jsstring \<Rightarrow> ((jsstring \<times> jsval) list \<times> jsstring) option"
where
  \<open>parse_value 0 cs = None\<close>
| \<open>parse_value (Suc n) cs =
     (case cs of
        [] \<Rightarrow> None
      | c # r \<Rightarrow>
          if c = ch CHR ''{'' then
            (case skip_ws r of
               [] \<Rightarrow> None
             | d # r' \<Rightarrow>
                 if d = ch CHR ''}'' then Some (JObj [], r')
                 else map_option (\<lambda>(kvs, t). (JObj kvs, t)) (parse_members n (d # r')))
          else if c = ch CHR ''['' then
            (case skip_ws r of
               [] \<Rightarrow> None
             | d # r' \<Rightarrow>
                 if d = ch CHR '']'' then Some (JArr [], r')
                 else map_option (\<lambda>(vs, t). (JArr vs, t)) (parse_elements n (d # r')))
          else if c = ch CHR ''"'' then map_option (\<lambda>(s, t). (JStr s, t)) (parse_chars r)
          else if starts_with cs (str ''true'') then Some (JBool True, drop 4 cs)
          else if starts_with cs (str ''false'') then Some (JBool False, drop 5 cs)
          else if starts_with cs (str ''null'') then Some (JNull, drop 4 cs)
          else map_option (\<lambda>(q, t). (JNum q, t)) (parse_number cs))\<close>
| \<open>parse_elements 0 cs = None\<close>
| \<open>parse_elements (Suc n) cs =
     (case parse_value n cs of
        None \<Rightarrow> None
      | Some (v, r) \<Rightarrow>
          (case skip_ws r of
             [] \<Rightarrow> None
           | d # r' \<Rightarrow>
               if d = ch CHR '']'' then Some ([v], r')
               else if d = ch CHR '','' then
                 map_option (\<lambda>(vs, t). (v # vs, t)) (parse_elements n (skip_ws r'))
               else None))\<close>
| \<open>parse_members 0 cs = None\<close>
| \<open>parse_members (Suc n) cs =
     (case cs of
        [] \<Rightarrow> None
      | q # r \<Rightarrow>
          if q = ch CHR ''"'' then
            (case parse_chars r of
               None \<Rightarrow> None
             | Some (k, r1) \<Rightarrow>
                 (case skip_ws r1 of
                    [] \<Rightarrow> None
                  | c # r2 \<Rightarrow>
                      if c = ch CHR '':'' then
                        (case parse_value n (skip_ws r2) of
                           None \<Rightarrow> None
                         | Some (v, r3) \<Rightarrow>
                             (case skip_ws r3 of
                                [] \<Rightarrow> None
                              | d # r4 \<Rightarrow>
                                  if d = ch CHR ''}'' then Some ([(k, v)], r4)
                                  else if d = ch CHR '','' then
                                    map_option (\<lambda>(kvs, t). ((k, v) # kvs, t))
                                      (parse_members n (skip_ws r4))
                                  else None))
                      else None))
          else None)\<close>

definition JSON_parse :: "jsstring \<Rightarrow> jsval option" where
  "JSON_parse text =
     (case parse_value (Suc (2 * length text)) (skip_ws text) of
        None \<Rightarrow> None
      | Some (v, r) \<Rightarrow> if skip_ws r = [] then Some v else None)"

section \<open>Extraction of a screen record from the model's text\<close>

text \<open>
  \<open>extractJSON\<close>. The first three strategies return whatever \<open>JSON.parse\<close> returns, of
  any type and \<open>null\<close> included; only a thrown \<open>SyntaxError\<close> leads to the next one. The
  result \<open>JNull\<close> is the source's \<open>null\<close>.
\<close>

definition field_recovery :: "jsstring \<Rightarrow> jsval" where
  "field_recovery text =
     (case (nameMatch text, htmlMatch text) of
        (Some n, Some h) \<Rightarrow>
          JObj [(str ''name'', JStr n),
                (str ''description'', JStr (case descMatch text of Some d \<Rightarrow> d | None \<Rightarrow> [])),
                (str ''htmlContent'', JStr h),
                (str ''cssContent'', JStr (case cssMatch text of Some c \<Rightarrow> c | None \<Rightarrow> []))]
      | _ \<Rightarrow> JNull)"

definition parse_code_block :: "jsstring \<Rightarrow> jsval option" where
  "parse_code_block text = (case codeBlockMatch text of None \<Rightarrow> None | Some inner \<Rightarrow> JSON_parse inner)"

definition parse_braces :: "jsstring \<Rightarrow> jsval option" where
  "parse_braces text = (case jsonMatch text of None \<Rightarrow> None | Some obj \<Rightarrow> JSON_parse obj)"

definition extractJSON :: "jsstring \<Rightarrow> jsval" where
  "extractJSON text =
     (case JSON_parse text of
        Some v \<Rightarrow> v
      | None \<Rightarrow>
          (case parse_code_block text of
             Some v \<Rightarrow> v
           | None \<Rightarrow>
               (case parse_braces text of
                  Some v \<Rightarrow> v
                | None \<Rightarrow> field_recovery text)))"

section \<open>Fallback markup\<close>

definition fallback_head :: jsstring where
  \<open>fallback_head = str
''<div class="min-h-screen bg-gray-50 p-6">
  <div class="max-w-md mx-auto bg-white rounded-2xl shadow-lg overflow-hidden">
    <div class="bg-indigo-600 px-6 py-4">
      <h1 class="text-white text-xl font-bold">Generated Screen</h1>
    </div>
    <div class="p-6">
      <p class="text-gray-600 mb-4">Your request: "''\<close>

definition fallback_tail :: jsstring where
  \<open>fallback_tail = str
''"</p>
      <div class="bg-gray-100 rounded-xl p-4 text-center">
        <p class="text-gray-500 text-sm">AI-generated content will appear here</p>
      </div>
      <button class="mt-4 w-full bg-indigo-600 text-white py-3 rounded-xl font-medium hover:bg-indigo-700 transition-colors">
        Action Button
      </button>
    </div>
  </div>
</div>''\<close>

definition safePrompt :: "jsstring \<Rightarrow> jsstring" where
  "safePrompt userPrompt =
     (if length userPrompt > 100 then take 100 userPrompt @ str ''...'' else userPrompt)"

definition generateFallbackHTML :: "jsstring \<Rightarrow> jsstring" where
  "generateFallbackHTML userPrompt = fallback_head @ safePrompt userPrompt @ fallback_tail"

section \<open>Screen generation\<close>

record ScreenData =
  name :: jsval
  description :: jsval
  htmlContent :: jsval
  cssContent :: jsval

text \<open>The model call: the text it resolves to, or a rejection (an error or a timeout).\<close>

datatype model_outcome = Returned jsstring | Rejected

datatype exn =
    ModelFailure
  | CouldNotParse
  | BodySyntaxError
  | RecordNotFound
  | InvalidColumnValue
  | UniqueConstraint

definition output_contract :: jsstring where
  \<open>output_contract = str
''

IMPORTANT: You must respond with ONLY a JSON object in this exact format:
{"name": "Screen Name", "description": "Brief description", "htmlContent": "<complete html code with tailwind classes>", "cssContent": ""}

Do NOT include markdown code blocks, explanations, or any other text. Just return the JSON object.''\<close>

definition fullPrompt :: "jsstring \<Rightarrow> jsstring \<Rightarrow> jsstring" where
  "fullPrompt prompt systemPrompt = systemPrompt @ str ''\<newline>\<newline>'' @ prompt @ output_contract"

text \<open>The last resort of the \<open>try\<close> block: markup scraped from the text, or the thrown error.\<close>

definition scrape_markup :: "jsstring \<Rightarrow> exn + ScreenData" where
  "scrape_markup text =
     (case htmlOnly_match text of
        Some htmlOnly \<Rightarrow>
          Inr \<lparr> name = JStr (str ''Generated Screen''),
                description = JStr (str ''Generated from AI response''),
                htmlContent = JStr (js_join (str ''\<newline>'') (take 5 htmlOnly)),
                cssContent = JStr [] \<rparr>
      | None \<Rightarrow> Inl CouldNotParse)"

text \<open>The body of the \<open>try\<close> block: \<open>Inl\<close> is a thrown exception.\<close>

definition generate_try :: "model_outcome \<Rightarrow> jsstring \<Rightarrow> exn + ScreenData" where
  "generate_try outcome prompt =
     (case outcome of
        Rejected \<Rightarrow> Inl ModelFailure
      | Returned text \<Rightarrow>
          (let parsed = extractJSON text in
           if truthy parsed then
             Inr \<lparr> name = js_or (field parsed (str ''name'')) (JStr (str ''Generated Screen'')),
                   description = js_or (field parsed (str ''description'')) (JStr []),
                   htmlContent = js_or (field parsed (str ''htmlContent''))
                                       (JStr (generateFallbackHTML prompt)),
                   cssContent = js_or (field parsed (str ''cssContent'')) (JStr []) \<rparr>
           else scrape_markup text))"

text \<open>The record of the \<open>catch\<close> block.\<close>

definition fallback_record :: "jsstring \<Rightarrow> ScreenData" where
  "fallback_record prompt =
     \<lparr> name = JStr (str ''Generated Screen''),
       description = JStr (str ''Generated from prompt''),
       htmlContent = JStr (generateFallbackHTML prompt),
       cssContent = JStr [] \<rparr>"

text \<open>
  \<open>generateScreenData\<close>: the \<open>catch\<close> turns every exception of the block into the
  fallback record. The model is a function from the prompt it is sent to its outcome.
\<close>

definition generateScreenData :: "(jsstring \<Rightarrow> model_outcome) \<Rightarrow> jsstring \<Rightarrow> jsstring \<Rightarrow> ScreenData" where
  "generateScreenData generateText prompt systemPrompt =
     (case generate_try (generateText (fullPrompt prompt systemPrompt)) prompt of
        Inr screenData \<Rightarrow> screenData
      | Inl e \<Rightarrow> fallback_record prompt)"

text \<open>
  What the caller does when extraction finds nothing: the scraped markup, or the
  fallback record. The specification asks for the same when an extracted record has no
  content.
\<close>

definition no_match_result :: "jsstring \<Rightarrow> jsstring \<Rightarrow> ScreenData" where
  "no_match_result text prompt =
     (case scrape_markup text of Inr screenData \<Rightarrow> screenData | Inl e \<Rightarrow> fallback_record prompt)"

text \<open>
  Where the content of the returned record comes from, branch by branch of
  \<open>generateScreenData\<close>: the extracted record, the scraped markup, or
  \<open>generateFallbackHTML\<close>.
\<close>

datatype origin = FromExtraction | FromScraping | FromFallback

definition content_origin :: "model_outcome \<Rightarrow> origin" where
  "content_origin outcome =
     (case outcome of
        Rejected \<Rightarrow> FromFallback
      | Returned text \<Rightarrow>
          (let parsed = extractJSON text in
           if truthy parsed then
             (if truthy (field parsed (str ''htmlContent'')) then FromExtraction else FromFallback)
           else (case htmlOnly_match text of Some htmlOnly \<Rightarrow> FromScraping | None \<Rightarrow> FromFallback)))"

section \<open>Rate limiting\<close>

record RateLimitConfig =
  requests :: nat
  windowMs :: int

definition strict :: RateLimitConfig where
  "strict = \<lparr> requests = 10, windowMs = 60000 \<rparr>"

text \<open>
  The limiter's \<open>Map\<close> from identifier to time stamps, in insertion order: \<open>set\<close> on a
  key that is there replaces its value in place.
\<close>

type_synonym limiter = "(jsstring \<times> int list) list"

fun map_set :: "jsstring \<Rightarrow> int list \<Rightarrow> limiter \<Rightarrow> limiter" where
  "map_set k v [] = [(k, v)]"
| "map_set k v (p # ps) = (if fst p = k then (k, v) # ps else p # map_set k v ps)"

definition cleanup :: "int \<Rightarrow> limiter \<Rightarrow> limiter" where
  "cleanup now m =
     filter (\<lambda>(k, ts). ts \<noteq> []) (map (\<lambda>(k, ts). (k, filter (\<lambda>t. t > now - 300000) ts)) m)"

text \<open>
  \<open>RateLimiter.check\<close>, with the two readings of the clock it makes (its own and the
  one of \<open>cleanup\<close>).
\<close>

definition check :: "int \<Rightarrow> int \<Rightarrow> jsstring \<Rightarrow> RateLimitConfig \<Rightarrow> limiter \<Rightarrow> bool \<times> limiter" where
  "check now now_cleanup identifier config m =
     (let windowStart = now - windowMs config;
          userRequests = filter (\<lambda>timestamp. timestamp > windowStart)
                           (case map_of m identifier of Some ts \<Rightarrow> ts | None \<Rightarrow> [])
      in if length userRequests \<ge> requests config then (False, m)
         else
           (let m' = map_set identifier (userRequests @ [now]) m
            in (True, if length m' > 10000 then cleanup now_cleanup m' else m')))"

record request =
  header_clerk_user :: "jsstring option"
  header_forwarded_for :: "jsstring option"
  header_real_ip :: "jsstring option"
  auth_userId :: "jsstring option"
  body :: jsstring

text \<open>\<open>String.prototype.trim\<close>\<close>

definition trim :: "jsstring \<Rightarrow> jsstring" where
  "trim s = rev (dropWhile is_space (rev (dropWhile is_space s)))"

text \<open>\<open>xff?.split(",")[0].trim() || realIp || "anonymous"\<close>\<close>

definition client_ip :: "request \<Rightarrow> jsstring" where
  "client_ip req =
     (let first = (case header_forwarded_for req of
                     Some f \<Rightarrow> trim (takeWhile (\<lambda>c. c \<noteq> ch CHR '','') f)
                   | None \<Rightarrow> [])
      in if first \<noteq> [] then first
         else (case header_real_ip req of
                 Some r \<Rightarrow> if r \<noteq> [] then r else str ''anonymous''
               | None \<Rightarrow> str ''anonymous''))"

definition getIdentifier :: "request \<Rightarrow> jsstring" where
  "getIdentifier req =
     (case header_clerk_user req of
        Some clerkUserId \<Rightarrow>
          if clerkUserId \<noteq> [] then str ''user:'' @ clerkUserId
          else str ''ip:'' @ client_ip req
      | None \<Rightarrow> str ''ip:'' @ client_ip req)"

section \<open>Storage\<close>

text \<open>
  The tables the endpoint reads and writes. The columns of a screen that the endpoint
  does not name (\<open>id\<close>, \<open>x\<close>, \<open>y\<close>, the time stamp on creation) get the defaults of
  the schema, which the environment supplies.
\<close>

record Project =
  project_id :: jsstring
  project_userId :: jsstring
  project_name :: jsstring

record Screen =
  screen_id :: jsstring
  screen_projectId :: jsstring
  screen_name :: jsstring
  screen_htmlContent :: jsstring
  screen_cssContent :: jsstring
  screen_x :: real
  screen_y :: real
  screen_width :: real
  screen_height :: real
  screen_updatedAt :: int

record PromptHistory =
  history_id :: jsstring
  history_projectId :: jsstring
  history_content :: jsstring
  history_role :: jsstring

record world =
  projects :: "Project list"
  screens :: "Screen list"
  promptHistory :: "PromptHistory list"
  rateLimiter :: limiter
  model_calls :: "jsstring list"

record env =
  generateText :: "jsstring \<Rightarrow> model_outcome"
  now_check :: int
  now_cleanup :: int
  now_write :: int
  new_screen_id :: jsstring
  new_history_id :: jsstring
  default_x :: real
  default_y :: real

text \<open>A string column takes a string and nothing else.\<close>

fun as_string :: "jsval \<Rightarrow> jsstring option" where
  "as_string (JStr s) = Some s"
| "as_string v = None"

text \<open>The \<open>data\<close> of \<open>prisma.screen.update\<close>, applied to a row.\<close>

definition update_data :: "jsstring \<Rightarrow> jsstring \<Rightarrow> jsstring \<Rightarrow> int \<Rightarrow> Screen \<Rightarrow> Screen" where
  "update_data n h c now r =
     r\<lparr> screen_name := n, screen_htmlContent := h, screen_cssContent := c,
        screen_updatedAt := now \<rparr>"

text \<open>
  \<open>prisma.screen.update\<close>: the changed row and the table. It throws when a value is
  no string and when no row has the id.
\<close>

definition screen_update :: "jsstring \<Rightarrow> ScreenData \<Rightarrow> int \<Rightarrow> Screen list \<Rightarrow> exn + (Screen \<times> Screen list)" where
  "screen_update screenId screenData now rows =
     (case (as_string (name screenData), as_string (htmlContent screenData),
            as_string (cssContent screenData)) of
        (Some n, Some h, Some c) \<Rightarrow>
          (case find (\<lambda>r. screen_id r = screenId) rows of
             None \<Rightarrow> Inl RecordNotFound
           | Some r \<Rightarrow>
               Inr (update_data n h c now r,
                    map (\<lambda>x. if screen_id x = screenId then update_data n h c now x else x) rows))
      | _ \<Rightarrow> Inl InvalidColumnValue)"

text \<open>The row of \<open>prisma.screen.create\<close>.\<close>

definition created_screen :: "env \<Rightarrow> jsstring \<Rightarrow> jsstring \<Rightarrow> jsstring \<Rightarrow> jsstring \<Rightarrow> Screen" where
  "created_screen e projectId n h c =
     \<lparr> screen_id = new_screen_id e, screen_projectId = projectId,
       screen_name = n, screen_htmlContent = h, screen_cssContent = c,
       screen_x = default_x e, screen_y = default_y e,
       screen_width = 375, screen_height = 812,
       screen_updatedAt = now_write e \<rparr>"

text \<open>\<open>prisma.screen.create\<close>\<close>

definition screen_create :: "env \<Rightarrow> jsstring \<Rightarrow> ScreenData \<Rightarrow> Screen list \<Rightarrow> exn + (Screen \<times> Screen list)" where
  "screen_create e projectId screenData rows =
     (case (as_string (name screenData), as_string (htmlContent screenData),
            as_string (cssContent screenData)) of
        (Some n, Some h, Some c) \<Rightarrow>
          if new_screen_id e \<in> screen_id ` set rows then Inl UniqueConstraint
          else Inr (created_screen e projectId n h c, rows @ [created_screen e projectId n h c])
      | _ \<Rightarrow> Inl InvalidColumnValue)"

text \<open>\<open>prisma.promptHistory.create\<close>\<close>

definition created_history :: "env \<Rightarrow> jsstring \<Rightarrow> jsstring \<Rightarrow> PromptHistory" where
  "created_history e projectId prompt =
     \<lparr> history_id = new_history_id e, history_projectId = projectId,
       history_content = prompt, history_role = str ''user'' \<rparr>"

definition history_create :: "env \<Rightarrow> jsstring \<Rightarrow> jsstring \<Rightarrow> PromptHistory list \<Rightarrow> exn + PromptHistory list" where
  "history_create e projectId prompt rows =
     (if new_history_id e \<in> history_id ` set rows then Inl UniqueConstraint
      else Inr (rows @ [created_history e projectId prompt]))"

section \<open>The generation endpoint\<close>

datatype response_body =
    ErrorBody jsstring
  | RateLimitBody jsstring jsstring int
  | InvalidBody "jsstring list"
  | ScreenBody Screen "bool option"

datatype response = Response nat response_body

text \<open>
  \<open>generateBodySchema.safeParse\<close>: the validated \<open>projectId\<close>, \<open>prompt\<close> and
  \<open>screenId\<close>, or the fields that failed (their messages are left out).
\<close>

definition nonempty_string :: "jsval \<Rightarrow> bool" where
  "nonempty_string v = (case v of JStr s \<Rightarrow> s \<noteq> [] | _ \<Rightarrow> False)"

definition optional_string :: "jsval \<Rightarrow> bool" where
  "optional_string v = (case v of JStr s \<Rightarrow> True | JUndefined \<Rightarrow> True | _ \<Rightarrow> False)"

definition safeParse :: "jsval \<Rightarrow> jsstring list + (jsstring \<times> jsstring \<times> jsstring option)" where
  "safeParse b =
     (case b of
        JObj kvs \<Rightarrow>
          (let bad = (if nonempty_string (field b (str ''projectId'')) then [] else [str ''projectId''])
                   @ (if nonempty_string (field b (str ''prompt'')) then [] else [str ''prompt''])
                   @ (if optional_string (field b (str ''screenId'')) then [] else [str ''screenId''])
           in case (as_string (field b (str ''projectId'')), as_string (field b (str ''prompt''))) of
                (Some projectId, Some prompt) \<Rightarrow>
                  if bad = [] then Inr (projectId, prompt, as_string (field b (str ''screenId'')))
                  else Inl bad
              | _ \<Rightarrow> Inl bad)
      | _ \<Rightarrow> Inl [])"

definition systemPrompt :: jsstring where
  "systemPrompt = str
''
      You are an expert mobile app UI designer.
      Generate a beautiful, modern mobile screen design.

      Requirements:
      - Use Tailwind CSS for all styling
      - Mobile width: 375px
      - Modern UI: rounded corners, soft shadows, ample whitespace
      - Good contrast and accessibility
    ''"

definition generator_prompt :: "Project \<Rightarrow> jsstring \<Rightarrow> jsstring" where
  "generator_prompt project prompt =
     str ''Project: '' @ project_name project @ str ''\<newline>Request: '' @ prompt"

text \<open>
  The part of the \<open>try\<close> block after the ownership check: the call of the generator
  (the prompt sent to the model is recorded), the write of the screen, the write of the
  prompt history, the response. A write that was made before an exception stays.
\<close>

definition generate_and_store :: "env \<Rightarrow> Project \<Rightarrow> jsstring \<Rightarrow> jsstring \<Rightarrow> jsstring option \<Rightarrow> world \<Rightarrow> (exn + response) \<times> world" where
  "generate_and_store e project projectId prompt screenId w =
     (let screenData = generateScreenData (generateText e) (generator_prompt project prompt) systemPrompt;
          w1 = w\<lparr> model_calls := model_calls w @ [fullPrompt (generator_prompt project prompt) systemPrompt] \<rparr>;
          written =
            (case screenId of
               Some sid \<Rightarrow>
                 if sid \<noteq> [] then screen_update sid screenData (now_write e) (screens w1)
                 else screen_create e projectId screenData (screens w1)
             | None \<Rightarrow> screen_create e projectId screenData (screens w1))
      in case written of
           Inl x \<Rightarrow> (Inl x, w1)
         | Inr (screen, rows) \<Rightarrow>
             (let w2 = w1\<lparr> screens := rows \<rparr>
              in case history_create e projectId prompt (promptHistory w2) of
                   Inl x \<Rightarrow> (Inl x, w2)
                 | Inr hs \<Rightarrow>
                     (Inr (Response 200
                             (ScreenBody screen
                                (if name screenData = JStr (str ''Generated Screen'')
                                 then Some True else None))),
                      w2\<lparr> promptHistory := hs \<rparr>)))"

text \<open>The \<open>try\<close> block of \<open>POST\<close>.\<close>

definition POST_try :: "env \<Rightarrow> request \<Rightarrow> world \<Rightarrow> (exn + response) \<times> world" where
  "POST_try e req w =
     (case auth_userId req of
        None \<Rightarrow> (Inr (Response 401 (ErrorBody (str ''Unauthorized''))), w)
      | Some userId \<Rightarrow>
          if userId = [] then (Inr (Response 401 (ErrorBody (str ''Unauthorized''))), w)
          else
            (case JSON_parse (body req) of
               None \<Rightarrow> (Inl BodySyntaxError, w)
             | Some b \<Rightarrow>
                 (case safeParse b of
                    Inl fieldErrors \<Rightarrow> (Inr (Response 400 (InvalidBody fieldErrors)), w)
                  | Inr (projectId, prompt, screenId) \<Rightarrow>
                      (case find (\<lambda>p. project_id p = projectId) (projects w) of
                         None \<Rightarrow> (Inr (Response 404 (ErrorBody (str ''Project not found''))), w)
                       | Some project \<Rightarrow>
                           if project_userId project \<noteq> userId
                           then (Inr (Response 403 (ErrorBody (str ''Unauthorized''))), w)
                           else generate_and_store e project projectId prompt screenId w))))"

text \<open>Whether the rate limiter lets the request through, and the world it leaves.\<close>

definition rate_allowed :: "env \<Rightarrow> request \<Rightarrow> world \<Rightarrow> bool" where
  "rate_allowed e req w =
     fst (check (now_check e) (now_cleanup e) (getIdentifier req) strict (rateLimiter w))"

definition after_limiter :: "env \<Rightarrow> request \<Rightarrow> world \<Rightarrow> world" where
  "after_limiter e req w =
     w\<lparr> rateLimiter :=
          snd (check (now_check e) (now_cleanup e) (getIdentifier req) strict (rateLimiter w)) \<rparr>"

text \<open>
  \<open>POST\<close>: the rate limit first, then the \<open>try\<close> block, whose exceptions all
  become the response 500.
\<close>

definition POST :: "env \<Rightarrow> request \<Rightarrow> world \<Rightarrow> response \<times> world" where
  "POST e req w =
     (if \<not> rate_allowed e req w
      then (Response 429
              (RateLimitBody (str ''Too many requests'')
                 (str ''Rate limit exceeded. Please try again later.'') 60),
            after_limiter e req w)
      else
        (case POST_try e req (after_limiter e req w) of
           (Inr r, w') \<Rightarrow> (r, w')
         | (Inl x, w') \<Rightarrow> (Response 500 (ErrorBody (str ''Failed to generate screen'')), w')))"

section \<open>A sample world\<close>

text \<open>
  Alice owns the project \<open>A\<close>, Bob owns the project \<open>B\<close>, and the one screen \<open>s1\<close>
  belongs to Bob's project.
\<close>

definition shop :: Project where
  "shop = \<lparr> project_id = str ''A'', project_userId = str ''alice'', project_name = str ''Shop'' \<rparr>"

definition blog :: Project where
  "blog = \<lparr> project_id = str ''B'', project_userId = str ''bob'', project_name = str ''Blog'' \<rparr>"

definition home_screen :: Screen where
  "home_screen =
     \<lparr> screen_id = str ''s1'', screen_projectId = str ''B'', screen_name = str ''Home'',
       screen_htmlContent = str ''<p>home</p>'', screen_cssContent = [],
       screen_x = 40, screen_y = 80, screen_width = 390, screen_height = 844,
       screen_updatedAt = 5 \<rparr>"

definition sample_world :: world where
  "sample_world =
     \<lparr> projects = [shop, blog], screens = [home_screen], promptHistory = [],
       rateLimiter = [], model_calls = [] \<rparr>"

text \<open>Two answers of the model: a record, and a record that is named like the fallback.\<close>

definition login_answer :: jsstring where
  \<open>login_answer =
     str ''{"name":"Login","description":"","htmlContent":"<div>Login</div>","cssContent":""}''\<close>

definition generated_name_answer :: jsstring where
  \<open>generated_name_answer =
     str ''{"name":"Generated Screen","description":"","htmlContent":"<div>x</div>","cssContent":""}''\<close>

definition sample_env :: "model_outcome \<Rightarrow> env" where
  "sample_env outcome =
     \<lparr> generateText = (\<lambda>q. outcome),
       now_check = 1000, now_cleanup = 1000, now_write = 1001,
       new_screen_id = str ''s2'', new_history_id = str ''h1'',
       default_x = 0, default_y = 0 \<rparr>"

text \<open>A request, by its caller and its body.\<close>

definition request_of :: "jsstring option \<Rightarrow> jsstring \<Rightarrow> request" where
  "request_of caller b =
     \<lparr> header_clerk_user = None, header_forwarded_for = None, header_real_ip = None,
       auth_userId = caller, body = b \<rparr>"

definition alice :: "jsstring option" where
  "alice = Some (str ''alice'')"

definition body_update_s1 :: jsstring where
  \<open>body_update_s1 = str ''{"projectId":"A","prompt":"a login screen","screenId":"s1"}''\<close>

definition body_empty_screenId :: jsstring where
  \<open>body_empty_screenId = str ''{"projectId":"A","prompt":"a login screen","screenId":""}''\<close>

definition body_create :: jsstring where
  \<open>body_create = str ''{"projectId":"A","prompt":"a login screen"}''\<close>

definition body_project_B :: jsstring where
  \<open>body_project_B = str ''{"projectId":"B","prompt":"a login screen"}''\<close>

definition body_project_Z :: jsstring where
  \<open>body_project_Z = str ''{"projectId":"Z","prompt":"a login screen"}''\<close>

section \<open>Escaping, as the specification describes the fallback\<close>

text \<open>
  The specification says the prompt is escaped for safe embedding in markup. This is the
  usual escaping of the five characters that are special in HTML text and attribute
  values; it follows the specification's words, and no function of the source computes
  it.
\<close>

definition html_escape_char :: "jschar \<Rightarrow> jsstring" where
  \<open>html_escape_char c =
     (if c = ch CHR ''&'' then str ''&amp;''
      else if c = ch CHR ''<'' then str ''&lt;''
      else if c = ch CHR ''>'' then str ''&gt;''
      else if c = ch CHR ''"'' then str ''&quot;''
      else if c = ch CHR 0x27 then str ''&#39;''
      else [c])\<close>

definition html_escape :: "jsstring \<Rightarrow> jsstring" where
  "html_escape s = concat (map html_escape_char s)"

section \<open>The well-formed serialization of a screen record\<close>

text \<open>
  The specification speaks of the well-formed structured text of a record with the four
  string fields. This is that text as \<open>JSON.stringify\<close> writes it; no function of the
  source computes it. A string is quoted with \<open>\"\<close>, \<open>\\\<close>, \<open>\b\<close>, \<open>\t\<close>, \<open>\n\<close>,
  \<open>\f\<close>, \<open>\r\<close> for these characters, \<open>\uXXXX\<close> for every other control character
  and for a surrogate that is not part of a pair, and every other character as it is.
\<close>

definition hex_digit :: "nat \<Rightarrow> jschar" where
  "hex_digit n = (if n < 10 then of_nat (48 + n) else of_nat (87 + n))"

definition unicode_escape :: "jschar \<Rightarrow> jsstring" where
  "unicode_escape c =
     [ch CHR 0x5C, ch CHR ''u'',
      hex_digit (unat c div 4096), hex_digit (unat c div 256 mod 16),
      hex_digit (unat c div 16 mod 16), hex_digit (unat c mod 16)]"

definition is_high_surrogate :: "jschar \<Rightarrow> bool" where
  "is_high_surrogate c \<longleftrightarrow> 0xD800 \<le> c \<and> c \<le> 0xDBFF"

definition is_low_surrogate :: "jschar \<Rightarrow> bool" where
  "is_low_surrogate c \<longleftrightarrow> 0xDC00 \<le> c \<and> c \<le> 0xDFFF"

definition short_escape :: "jschar \<Rightarrow> jschar option" where
  \<open>short_escape c =
     (if c = 0x8 then Some (ch CHR ''b'')
      else if c = 0x9 then Some (ch CHR ''t'')
      else if c = 0xA then Some (ch CHR ''n'')
      else if c = 0xC then Some (ch CHR ''f'')
      else if c = 0xD then Some (ch CHR ''r'')
      else if c = 0x22 then Some (ch CHR ''"'')
      else if c = 0x5C then Some (ch CHR 0x5C)
      else None)\<close>

fun quote_chars :: "jsstring \<Rightarrow> jsstring" where
  "quote_chars [] = []"
| "quote_chars (c # cs) =
     (case short_escape c of
        Some e \<Rightarrow> ch CHR 0x5C # e # quote_chars cs
      | None \<Rightarrow>
          if c < 0x20 then unicode_escape c @ quote_chars cs
          else if is_high_surrogate c then
            (case cs of
               [] \<Rightarrow> unicode_escape c
             | d # ds \<Rightarrow>
                 if is_low_surrogate d then c # d # quote_chars ds
                 else unicode_escape c @ quote_chars cs)
          else if is_low_surrogate c then unicode_escape c @ quote_chars cs
          else c # quote_chars cs)"

definition quote :: "jsstring \<Rightarrow> jsstring" where
  \<open>quote s = ch CHR ''"'' # quote_chars s @ [ch CHR ''"'']\<close>

text \<open>A member \<open>"key":"value"\<close> and the object of the four members.\<close>

definition member :: "jsstring \<Rightarrow> jsstring \<Rightarrow> jsstring" where
  "member k v = quote k @ ch CHR '':'' # quote v"

definition stringify_screen :: "jsstring \<Rightarrow> jsstring \<Rightarrow> jsstring \<Rightarrow> jsstring \<Rightarrow> jsstring" where
  "stringify_screen n d h c =
     ch CHR ''{'' # member (str ''name'') n
       @ ch CHR '','' # member (str ''description'') d
       @ ch CHR '','' # member (str ''htmlContent'') h
       @ ch CHR '','' # member (str ''cssContent'') c
       @ [ch CHR ''}'']"

section \<open>Sample answers of the model\<close>

text \<open>A record whose content is an array, not a string.\<close>

definition non_string_answer :: jsstring where
  \<open>non_string_answer = str ''{"name":"Login","htmlContent":[]}''\<close>

text \<open>A record whose content is the empty string.\<close>

definition empty_content_answer :: jsstring where
  \<open>empty_content_answer = str ''{"name":"Login","htmlContent":""}''\<close>

text \<open>A record that is no JSON, an attribute value having its quotes unescaped.\<close>

definition unescaped_quotes_answer :: jsstring where
  \<open>unescaped_quotes_answer =
     str ''{"name": "Card", "htmlContent": "<p class="a">x</p>", "cssContent": ""}''\<close>

text \<open>Prose with no record and no markup.\<close>

definition prose_answer :: jsstring where
  "prose_answer = str ''I cannot help with that.''"

section \<open>The fallback markup echoes the prompt\<close>

lemma length_safePrompt: "length (safePrompt p) \<le> 103"
  by (simp add: safePrompt_def str_def)

text \<open>
  C3, the claim as written fails: the prompt is not escaped. For the prompt \<open><b>\<close> the
  markup is not the template around the escaped prompt.
\<close>

theorem fallback_not_escaped:
  "generateFallbackHTML (str ''<b>'')
     \<noteq> fallback_head @ html_escape (safePrompt (str ''<b>'')) @ fallback_tail"
  by (simp add: generateFallbackHTML_def safePrompt_def html_escape_def html_escape_char_def str_def)

text \<open>
  C3, amended: for every prompt the result is the fixed template around the prompt
  itself, unescaped: the whole prompt when it has at most 100 code units, and its first
  100 code units followed by three dots when it has more. The function is total, so
  nothing is raised, for the empty prompt too.
\<close>

theorem fallback_embeds_prompt:
  "(length p \<le> 100 \<longrightarrow> generateFallbackHTML p = fallback_head @ p @ fallback_tail) \<and>
   (length p > 100 \<longrightarrow>
      generateFallbackHTML p = fallback_head @ take 100 p @ str ''...'' @ fallback_tail \<and>
      length (take 100 p) = 100)"
  by (simp add: generateFallbackHTML_def safePrompt_def)

theorem fallback_embeds_prompt_witness:
  "length ([] :: jsstring) \<le> 100 \<and>
   generateFallbackHTML [] = fallback_head @ [] @ fallback_tail \<and>
   length (replicate 101 (ch CHR ''a'')) > 100 \<and>
   generateFallbackHTML (replicate 101 (ch CHR ''a''))
     = fallback_head @ take 100 (replicate 101 (ch CHR ''a'')) @ str ''...'' @ fallback_tail"
  using fallback_embeds_prompt [of "[]"] fallback_embeds_prompt [of "replicate 101 (ch CHR ''a'')"]
  by simp

section \<open>What \<open>generateScreenData\<close> returns\<close>

lemma fallback_nonempty: "generateFallbackHTML p \<noteq> []"
  by (simp add: generateFallbackHTML_def fallback_head_def str_def)

lemma span_greedy_hit: "span_greedy a b t = Some (hit, rest) \<Longrightarrow> hit \<noteq> []"
  by (auto simp: span_greedy_def split: list.splits if_splits)

lemma match_all_nonempty_hits:
  "hit \<in> set (match_all n (span_greedy a b) t) \<Longrightarrow> hit \<noteq> []"
  by (induction n arbitrary: t) (auto split: option.splits dest: span_greedy_hit [OF sym])

lemma js_join_nonempty: "xs \<noteq> [] \<Longrightarrow> \<forall>x \<in> set xs. x \<noteq> [] \<Longrightarrow> js_join sep xs \<noteq> []"
  by (induction sep xs rule: js_join.induct) auto

lemma scraped_nonempty:
  assumes "htmlOnly_match t = Some hits"
  shows "js_join sep (take 5 hits) \<noteq> []"
proof (rule js_join_nonempty)
  from assms show "take 5 hits \<noteq> []"
    by (auto simp: htmlOnly_match_def Let_def split: if_splits)
  from assms show "\<forall>x \<in> set (take 5 hits). x \<noteq> []"
    by (auto simp: htmlOnly_match_def Let_def split: if_splits
          dest!: in_set_takeD match_all_nonempty_hits)
qed

text \<open>
  Whatever the model does, the content of the record is a truthy value: no branch
  returns an empty string, \<open>null\<close> or \<open>undefined\<close>.
\<close>

lemma content_truthy: "truthy (htmlContent (generateScreenData g p s))"
  by (auto simp: generateScreenData_def generate_try_def scrape_markup_def fallback_record_def
        js_or_def Let_def fallback_nonempty scraped_nonempty
        split: model_outcome.splits option.splits sum.splits)

lemma content_string_nonempty:
  "htmlContent (generateScreenData g p s) = JStr h \<Longrightarrow> h \<noteq> []"
  using content_truthy [of g p s] by auto

lemma rejected_gives_fallback:
  "g (fullPrompt p s) = Rejected \<Longrightarrow> generateScreenData g p s = fallback_record p"
  by (simp add: generateScreenData_def generate_try_def)

lemma extract_non_string_content:
  "extractJSON non_string_answer
     = JObj [(str ''name'', JStr (str ''Login'')), (str ''htmlContent'', JArr [])]"
  by code_simp

text \<open>
  C1: the function is total and its content is never falsy, but the content need not be
  a string. When the model answers \<open>{"name":"Login","htmlContent":[]}\<close> the first
  strategy returns the parsed object as it is, an array is truthy, and the record that
  is returned has the empty array as its \<open>htmlContent\<close>, for every prompt.
\<close>

theorem generateScreenData_array_content:
  "htmlContent (generateScreenData (\<lambda>q. Returned non_string_answer) prompt sys) = JArr []"
  by (simp add: generateScreenData_def generate_try_def extract_non_string_content js_or_def
        str_def)

section \<open>An extracted record without content\<close>

lemma extract_empty_content:
  "extractJSON empty_content_answer
     = JObj [(str ''name'', JStr (str ''Login'')), (str ''htmlContent'', JStr [])]"
  by code_simp

lemma scrape_empty_content: "scrape_markup empty_content_answer = Inl CouldNotParse"
  by code_simp

text \<open>
  C4, the claim as written fails: for the answer \<open>{"name":"Login","htmlContent":""}\<close>
  extraction yields a record with empty content, and the result is not the one of the
  no-match path.
\<close>

theorem empty_content_not_no_match:
  "truthy (extractJSON empty_content_answer) \<and>
   \<not> truthy (field (extractJSON empty_content_answer) (str ''htmlContent'')) \<and>
   generateScreenData (\<lambda>q. Returned empty_content_answer) (str ''a login screen'') systemPrompt
     \<noteq> no_match_result empty_content_answer (str ''a login screen'')"
  by (simp add: extract_empty_content scrape_empty_content generateScreenData_def
        generate_try_def no_match_result_def fallback_record_def js_or_def str_def)

text \<open>
  C4, amended: when extraction yields a truthy value whose \<open>htmlContent\<close> is empty or
  missing, \<open>generateScreenData\<close> keeps the extracted name, description and style
  (each with its default when falsy) and puts the fallback markup for the prompt in
  place of the content; it scrapes no markup.
\<close>

theorem empty_content_gets_fallback_markup:
  assumes "g (fullPrompt p s) = Returned t"
    and "truthy (extractJSON t)"
    and "\<not> truthy (field (extractJSON t) (str ''htmlContent''))"
  shows "generateScreenData g p s =
           \<lparr> name = js_or (field (extractJSON t) (str ''name'')) (JStr (str ''Generated Screen'')),
             description = js_or (field (extractJSON t) (str ''description'')) (JStr []),
             htmlContent = JStr (generateFallbackHTML p),
             cssContent = js_or (field (extractJSON t) (str ''cssContent'')) (JStr []) \<rparr>"
  using assms by (simp add: generateScreenData_def generate_try_def js_or_def Let_def)

theorem empty_content_gets_fallback_markup_witness:
  "truthy (extractJSON empty_content_answer) \<and>
   \<not> truthy (field (extractJSON empty_content_answer) (str ''htmlContent'')) \<and>
   generateScreenData (\<lambda>q. Returned empty_content_answer) (str ''a login screen'') systemPrompt
     = \<lparr> name = JStr (str ''Login''), description = JStr [],
         htmlContent = JStr (generateFallbackHTML (str ''a login screen'')),
         cssContent = JStr [] \<rparr>"
  using empty_content_gets_fallback_markup
          [of "\<lambda>q. Returned empty_content_answer" "str ''a login screen''" systemPrompt
              empty_content_answer]
  by (simp add: extract_empty_content js_or_def str_def)

section \<open>Recovery field by field\<close>

lemma unescaped_quotes_strategies:
  "JSON_parse unescaped_quotes_answer = None"
  "parse_code_block unescaped_quotes_answer = None"
  "parse_braces unescaped_quotes_answer = None"
  by code_simp+

lemma unescaped_quotes_matches:
  "nameMatch unescaped_quotes_answer = Some (str ''Card'')"
  "htmlMatch unescaped_quotes_answer = Some (str ''<p class='' @ [0x22, 0x61, 0x22] @ str ''>x</p>'')"
  "descMatch unescaped_quotes_answer = None"
  "cssMatch unescaped_quotes_answer = Some []"
  by code_simp+

lemma prose_strategies:
  "JSON_parse prose_answer = None"
  "parse_code_block prose_answer = None"
  "parse_braces prose_answer = None"
  "nameMatch prose_answer = None"
  by code_simp+

text \<open>
  C7: on a text for which \<open>JSON.parse\<close> throws in each of the first three strategies
  (or the pattern of the strategy finds nothing to parse), \<open>extractJSON\<close> returns a
  record exactly when both the \<open>name\<close> pattern and the \<open>htmlContent\<close> pattern match;
  the record has the two matched values, and for \<open>description\<close> and \<open>cssContent\<close> the
  matched value or the empty string. Otherwise the result is \<open>null\<close>.
\<close>

theorem field_recovery_iff:
  assumes "JSON_parse t = None" and "parse_code_block t = None" and "parse_braces t = None"
  shows "(extractJSON t \<noteq> JNull \<longleftrightarrow> nameMatch t \<noteq> None \<and> htmlMatch t \<noteq> None) \<and>
         (\<forall>n h. nameMatch t = Some n \<and> htmlMatch t = Some h \<longrightarrow>
            extractJSON t =
              JObj [(str ''name'', JStr n),
                    (str ''description'', JStr (case descMatch t of Some d \<Rightarrow> d | None \<Rightarrow> [])),
                    (str ''htmlContent'', JStr h),
                    (str ''cssContent'', JStr (case cssMatch t of Some c \<Rightarrow> c | None \<Rightarrow> []))])"
  using assms by (auto simp: extractJSON_def field_recovery_def split: option.splits)

theorem field_recovery_iff_witness:
  "JSON_parse unescaped_quotes_answer = None \<and>
   parse_code_block unescaped_quotes_answer = None \<and>
   parse_braces unescaped_quotes_answer = None \<and>
   extractJSON unescaped_quotes_answer =
     JObj [(str ''name'', JStr (str ''Card'')),
           (str ''description'', JStr []),
           (str ''htmlContent'', JStr (str ''<p class='' @ [0x22, 0x61, 0x22] @ str ''>x</p>'')),
           (str ''cssContent'', JStr [])] \<and>
   JSON_parse prose_answer = None \<and>
   parse_code_block prose_answer = None \<and>
   parse_braces prose_answer = None \<and>
   extractJSON prose_answer = JNull"
  using field_recovery_iff [of unescaped_quotes_answer] field_recovery_iff [of prose_answer]
  by (simp add: unescaped_quotes_strategies unescaped_quotes_matches prose_strategies)

section \<open>The endpoint, path by path\<close>

lemma after_limiter_fields [simp]:
  "projects (after_limiter e req w) = projects w"
  "screens (after_limiter e req w) = screens w"
  "promptHistory (after_limiter e req w) = promptHistory w"
  "model_calls (after_limiter e req w) = model_calls w"
  by (simp_all add: after_limiter_def)

lemma screen_update_Inr:
  "screen_update sid sd t rows = Inr (scr, rows') \<longleftrightarrow>
     (\<exists>n h c r. name sd = JStr n \<and> htmlContent sd = JStr h \<and> cssContent sd = JStr c \<and>
        find (\<lambda>x. screen_id x = sid) rows = Some r \<and>
        scr = update_data n h c t r \<and>
        rows' = map (\<lambda>x. if screen_id x = sid then update_data n h c t x else x) rows)"
  by (cases "name sd"; cases "htmlContent sd"; cases "cssContent sd")
     (auto simp: screen_update_def split: option.splits)

lemma screen_create_Inr:
  "screen_create e pid sd rows = Inr (scr, rows') \<longleftrightarrow>
     (\<exists>n h c. name sd = JStr n \<and> htmlContent sd = JStr h \<and> cssContent sd = JStr c \<and>
        new_screen_id e \<notin> screen_id ` set rows \<and>
        scr = created_screen e pid n h c \<and> rows' = rows @ [scr])"
  by (cases "name sd"; cases "htmlContent sd"; cases "cssContent sd")
     (auto simp: screen_create_def split: option.splits)

lemma POST_success:
  assumes "POST e req w = (Response 200 b, w')"
  shows "\<exists>u j pid prompt sid project.
           rate_allowed e req w \<and>
           auth_userId req = Some u \<and> u \<noteq> [] \<and>
           JSON_parse (body req) = Some j \<and> safeParse j = Inr (pid, prompt, sid) \<and>
           find (\<lambda>p. project_id p = pid) (projects w) = Some project \<and>
           project_userId project = u \<and>
           generate_and_store e project pid prompt sid (after_limiter e req w)
             = (Inr (Response 200 b), w')"
  using assms
  by (auto simp: POST_def POST_try_def split: if_splits option.splits sum.splits prod.splits)

lemma POST_checks_passed:
  assumes "rate_allowed e req w" and "auth_userId req = Some u" and "u \<noteq> []"
    and "JSON_parse (body req) = Some j" and "safeParse j = Inr (pid, prompt, sid)"
    and "find (\<lambda>p. project_id p = pid) (projects w) = Some project"
    and "project_userId project = u"
  shows "POST e req w =
           (case generate_and_store e project pid prompt sid (after_limiter e req w) of
              (Inr r, w') \<Rightarrow> (r, w')
            | (Inl x, w') \<Rightarrow> (Response 500 (ErrorBody (str ''Failed to generate screen'')), w'))"
  using assms by (simp add: POST_def POST_try_def)

lemma generate_and_store_frame:
  assumes "generate_and_store e project pid prompt sid w = (res, w')"
  shows "projects w' = projects w"
    and "rateLimiter w' = rateLimiter w"
    and "model_calls w' = model_calls w @ [fullPrompt (generator_prompt project prompt) systemPrompt]"
  using assms
  by (auto simp: generate_and_store_def Let_def split: sum.splits prod.splits option.splits if_splits)

text \<open>The update path and the create path, when every write succeeds.\<close>

lemma generate_and_store_update:
  assumes "s \<noteq> []"
    and "name (generateScreenData (generateText e) (generator_prompt project prompt) systemPrompt) = JStr n"
    and "htmlContent (generateScreenData (generateText e) (generator_prompt project prompt) systemPrompt) = JStr h"
    and "cssContent (generateScreenData (generateText e) (generator_prompt project prompt) systemPrompt) = JStr c"
    and "find (\<lambda>x. screen_id x = s) (screens w) = Some row"
    and "new_history_id e \<notin> history_id ` set (promptHistory w)"
  shows "generate_and_store e project pid prompt (Some s) w =
           (Inr (Response 200
                   (ScreenBody (update_data n h c (now_write e) row)
                      (if n = str ''Generated Screen'' then Some True else None))),
            w\<lparr> model_calls := model_calls w @ [fullPrompt (generator_prompt project prompt) systemPrompt],
               screens := map (\<lambda>x. if screen_id x = s then update_data n h c (now_write e) x else x)
                            (screens w),
               promptHistory := promptHistory w @ [created_history e pid prompt] \<rparr>)"
  using assms
  by (simp add: generate_and_store_def screen_update_def history_create_def Let_def)

lemma generate_and_store_create:
  assumes "sid = None \<or> sid = Some []"
    and "name (generateScreenData (generateText e) (generator_prompt project prompt) systemPrompt) = JStr n"
    and "htmlContent (generateScreenData (generateText e) (generator_prompt project prompt) systemPrompt) = JStr h"
    and "cssContent (generateScreenData (generateText e) (generator_prompt project prompt) systemPrompt) = JStr c"
    and "new_screen_id e \<notin> screen_id ` set (screens w)"
    and "new_history_id e \<notin> history_id ` set (promptHistory w)"
  shows "generate_and_store e project pid prompt sid w =
           (Inr (Response 200
                   (ScreenBody (created_screen e pid n h c)
                      (if n = str ''Generated Screen'' then Some True else None))),
            w\<lparr> model_calls := model_calls w @ [fullPrompt (generator_prompt project prompt) systemPrompt],
               screens := screens w @ [created_screen e pid n h c],
               promptHistory := promptHistory w @ [created_history e pid prompt] \<rparr>)"
  using assms
  by (auto simp: generate_and_store_def screen_create_def history_create_def Let_def)

text \<open>What a successful call has done.\<close>

lemma generate_and_store_success:
  assumes "generate_and_store e project pid prompt sid w = (Inr r, w')"
  shows "\<exists>n h c.
           name (generateScreenData (generateText e) (generator_prompt project prompt) systemPrompt) = JStr n \<and>
           htmlContent (generateScreenData (generateText e) (generator_prompt project prompt) systemPrompt) = JStr h \<and>
           cssContent (generateScreenData (generateText e) (generator_prompt project prompt) systemPrompt) = JStr c \<and>
           promptHistory w' = promptHistory w @ [created_history e pid prompt] \<and>
           (case sid of
              Some s \<Rightarrow>
                if s \<noteq> [] then
                  (\<exists>row. find (\<lambda>x. screen_id x = s) (screens w) = Some row \<and>
                     r = Response 200 (ScreenBody (update_data n h c (now_write e) row)
                                         (if n = str ''Generated Screen'' then Some True else None)) \<and>
                     screens w' = map (\<lambda>x. if screen_id x = s then update_data n h c (now_write e) x else x)
                                    (screens w))
                else
                  r = Response 200 (ScreenBody (created_screen e pid n h c)
                                      (if n = str ''Generated Screen'' then Some True else None)) \<and>
                  screens w' = screens w @ [created_screen e pid n h c]
            | None \<Rightarrow>
                r = Response 200 (ScreenBody (created_screen e pid n h c)
                                    (if n = str ''Generated Screen'' then Some True else None)) \<and>
                screens w' = screens w @ [created_screen e pid n h c])"
  using assms
  by (cases sid)
     (auto simp: generate_and_store_def history_create_def Let_def screen_update_Inr screen_create_Inr
        split: sum.splits prod.splits if_splits)

lemma POST_update_path:
  assumes "rate_allowed e req w" and "auth_userId req = Some u" and "u \<noteq> []"
    and "JSON_parse (body req) = Some j" and "safeParse j = Inr (pid, prompt, Some s)" and "s \<noteq> []"
    and "find (\<lambda>p. project_id p = pid) (projects w) = Some project"
    and "project_userId project = u"
    and "find (\<lambda>x. screen_id x = s) (screens w) = Some row"
    and "name (generateScreenData (generateText e) (generator_prompt project prompt) systemPrompt) = JStr n"
    and "htmlContent (generateScreenData (generateText e) (generator_prompt project prompt) systemPrompt) = JStr h"
    and "cssContent (generateScreenData (generateText e) (generator_prompt project prompt) systemPrompt) = JStr c"
    and "new_history_id e \<notin> history_id ` set (promptHistory w)"
  shows "POST e req w =
           (Response 200 (ScreenBody (update_data n h c (now_write e) row)
                            (if n = str ''Generated Screen'' then Some True else None)),
            (after_limiter e req w)
              \<lparr> model_calls := model_calls w @ [fullPrompt (generator_prompt project prompt) systemPrompt],
                screens := map (\<lambda>x. if screen_id x = s then update_data n h c (now_write e) x else x)
                             (screens w),
                promptHistory := promptHistory w @ [created_history e pid prompt] \<rparr>)"
proof -
  have "generate_and_store e project pid prompt (Some s) (after_limiter e req w) =
          (Inr (Response 200 (ScreenBody (update_data n h c (now_write e) row)
                                (if n = str ''Generated Screen'' then Some True else None))),
           (after_limiter e req w)
             \<lparr> model_calls := model_calls w @ [fullPrompt (generator_prompt project prompt) systemPrompt],
               screens := map (\<lambda>x. if screen_id x = s then update_data n h c (now_write e) x else x)
                            (screens w),
               promptHistory := promptHistory w @ [created_history e pid prompt] \<rparr>)"
    using generate_and_store_update [of s e project prompt n h c "after_limiter e req w" row pid] assms
    by simp
  with POST_checks_passed [OF assms(1-5) assms(7,8)] show ?thesis by simp
qed

lemma POST_create_path:
  assumes "rate_allowed e req w" and "auth_userId req = Some u" and "u \<noteq> []"
    and "JSON_parse (body req) = Some j" and "safeParse j = Inr (pid, prompt, sid)"
    and "sid = None \<or> sid = Some []"
    and "find (\<lambda>p. project_id p = pid) (projects w) = Some project"
    and "project_userId project = u"
    and "name (generateScreenData (generateText e) (generator_prompt project prompt) systemPrompt) = JStr n"
    and "htmlContent (generateScreenData (generateText e) (generator_prompt project prompt) systemPrompt) = JStr h"
    and "cssContent (generateScreenData (generateText e) (generator_prompt project prompt) systemPrompt) = JStr c"
    and "new_screen_id e \<notin> screen_id ` set (screens w)"
    and "new_history_id e \<notin> history_id ` set (promptHistory w)"
  shows "POST e req w =
           (Response 200 (ScreenBody (created_screen e pid n h c)
                            (if n = str ''Generated Screen'' then Some True else None)),
            (after_limiter e req w)
              \<lparr> model_calls := model_calls w @ [fullPrompt (generator_prompt project prompt) systemPrompt],
                screens := screens w @ [created_screen e pid n h c],
                promptHistory := promptHistory w @ [created_history e pid prompt] \<rparr>)"
proof -
  have "generate_and_store e project pid prompt sid (after_limiter e req w) =
          (Inr (Response 200 (ScreenBody (created_screen e pid n h c)
                                (if n = str ''Generated Screen'' then Some True else None))),
           (after_limiter e req w)
             \<lparr> model_calls := model_calls w @ [fullPrompt (generator_prompt project prompt) systemPrompt],
               screens := screens w @ [created_screen e pid n h c],
               promptHistory := promptHistory w @ [created_history e pid prompt] \<rparr>)"
    using generate_and_store_create [of sid e project prompt n h c "after_limiter e req w" pid] assms
    by simp
  with POST_checks_passed [OF assms(1-5) assms(7,8)] show ?thesis by simp
qed


text \<open>Every call leaves the table of screens as it is, updates rows in place, or adds one row.\<close>

lemma generate_and_store_written:
  assumes "generate_and_store e project pid prompt sid w = (res, w')"
  shows "screens w' = screens w \<or>
         (\<exists>scr sd. (case sid of
                       Some s \<Rightarrow> if s \<noteq> [] then screen_update s sd (now_write e) (screens w)
                                 else screen_create e pid sd (screens w)
                     | None \<Rightarrow> screen_create e pid sd (screens w)) = Inr (scr, screens w'))"
  using assms
  by (cases sid)
     (auto simp: generate_and_store_def Let_def split: sum.splits prod.splits if_splits)

lemma generate_and_store_screens:
  assumes "generate_and_store e project pid prompt sid w = (res, w')"
  shows "screens w' = screens w \<or>
         (\<exists>s n h c. screens w' = map (\<lambda>x. if screen_id x = s then update_data n h c (now_write e) x else x)
                                     (screens w)) \<or>
         (\<exists>row. screens w' = screens w @ [row])"
proof -
  from generate_and_store_written [OF assms] consider
      "screens w' = screens w"
    | s scr sd where "screen_update s sd (now_write e) (screens w) = Inr (scr, screens w')"
    | scr sd where "screen_create e pid sd (screens w) = Inr (scr, screens w')"
    by (cases sid) (auto split: if_splits)
  then show ?thesis
  proof cases
    case 1
    then show ?thesis by simp
  next
    case 2
    then show ?thesis unfolding screen_update_Inr by blast
  next
    case 3
    then show ?thesis unfolding screen_create_Inr by blast
  qed
qed

lemma POST_world:
  assumes "POST e req w = (r, w')"
  shows "w' = after_limiter e req w \<or>
         (\<exists>project pid prompt sid res.
            generate_and_store e project pid prompt sid (after_limiter e req w) = (res, w'))"
proof (cases "rate_allowed e req w")
  case False
  with assms show ?thesis by (simp add: POST_def)
next
  case True
  obtain res w1 where t: "POST_try e req (after_limiter e req w) = (res, w1)"
    by (cases "POST_try e req (after_limiter e req w)")
  with True assms have "w' = w1"
    by (auto simp: POST_def split: sum.splits)
  with t show ?thesis
    unfolding POST_try_def
    by (auto split: option.splits if_splits sum.splits prod.splits)
qed

lemma POST_screens:
  assumes "POST e req w = (r, w')"
  shows "screens w' = screens w \<or>
         (\<exists>s n h c. screens w' = map (\<lambda>x. if screen_id x = s then update_data n h c (now_write e) x else x)
                                     (screens w)) \<or>
         (\<exists>row. screens w' = screens w @ [row])"
  using POST_world [OF assms]
proof
  assume "w' = after_limiter e req w"
  then show ?thesis by simp
next
  assume "\<exists>project pid prompt sid res.
            generate_and_store e project pid prompt sid (after_limiter e req w) = (res, w')"
  then obtain project pid prompt sid res where
    "generate_and_store e project pid prompt sid (after_limiter e req w) = (res, w')"
    by blast
  from generate_and_store_screens [OF this] show ?thesis by simp
qed

lemma generate_and_store_flag:
  assumes "generate_and_store e project pid prompt sid w = (Inr (Response 200 (ScreenBody scr fb)), w')"
  shows "name (generateScreenData (generateText e) (generator_prompt project prompt) systemPrompt)
           = JStr (screen_name scr) \<and>
         fb = (if screen_name scr = str ''Generated Screen'' then Some True else None)"
  using generate_and_store_success [OF assms]
  by (cases sid) (auto simp: update_data_def created_screen_def split: if_splits)

lemma update_data_same:
  "update_data (screen_name r) (screen_htmlContent r) (screen_cssContent r) (screen_updatedAt r) r = r"
  by (simp add: update_data_def)

section \<open>The sample world, evaluated\<close>

lemma parse_body_update_s1:
  "JSON_parse body_update_s1 =
     Some (JObj [(str ''projectId'', JStr (str ''A'')), (str ''prompt'', JStr (str ''a login screen'')),
                 (str ''screenId'', JStr (str ''s1''))])"
  by code_simp

lemma parse_body_empty_screenId:
  "JSON_parse body_empty_screenId =
     Some (JObj [(str ''projectId'', JStr (str ''A'')), (str ''prompt'', JStr (str ''a login screen'')),
                 (str ''screenId'', JStr [])])"
  by code_simp

lemma parse_body_create:
  "JSON_parse body_create =
     Some (JObj [(str ''projectId'', JStr (str ''A'')), (str ''prompt'', JStr (str ''a login screen''))])"
  by code_simp

lemma parse_body_project_B:
  "JSON_parse body_project_B =
     Some (JObj [(str ''projectId'', JStr (str ''B'')), (str ''prompt'', JStr (str ''a login screen''))])"
  by code_simp

lemma parse_body_project_Z:
  "JSON_parse body_project_Z =
     Some (JObj [(str ''projectId'', JStr (str ''Z'')), (str ''prompt'', JStr (str ''a login screen''))])"
  by code_simp

lemma safeParse_samples:
  "safeParse (JObj [(str ''projectId'', JStr (str ''A'')), (str ''prompt'', JStr (str ''a login screen'')),
                    (str ''screenId'', JStr (str ''s1''))])
     = Inr (str ''A'', str ''a login screen'', Some (str ''s1''))"
  "safeParse (JObj [(str ''projectId'', JStr (str ''A'')), (str ''prompt'', JStr (str ''a login screen'')),
                    (str ''screenId'', JStr [])])
     = Inr (str ''A'', str ''a login screen'', Some [])"
  "safeParse (JObj [(str ''projectId'', JStr (str ''A'')), (str ''prompt'', JStr (str ''a login screen''))])
     = Inr (str ''A'', str ''a login screen'', None)"
  "safeParse (JObj [(str ''projectId'', JStr (str ''B'')), (str ''prompt'', JStr (str ''a login screen''))])
     = Inr (str ''B'', str ''a login screen'', None)"
  "safeParse (JObj [(str ''projectId'', JStr (str ''Z'')), (str ''prompt'', JStr (str ''a login screen''))])
     = Inr (str ''Z'', str ''a login screen'', None)"
  by (simp_all add: safeParse_def nonempty_string_def optional_string_def str_def)

lemma sample_projects:
  "find (\<lambda>p. project_id p = str ''A'') (projects sample_world) = Some shop"
  "find (\<lambda>p. project_id p = str ''B'') (projects sample_world) = Some blog"
  "find (\<lambda>p. project_id p = str ''Z'') (projects sample_world) = None"
  by (simp_all add: sample_world_def shop_def blog_def str_def)

lemma sample_owners:
  "project_userId shop = str ''alice''" "project_userId blog \<noteq> str ''alice''" "str ''alice'' \<noteq> []"
  by (simp_all add: shop_def blog_def str_def)

lemma sample_screen:
  "find (\<lambda>x. screen_id x = str ''s1'') (screens sample_world) = Some home_screen"
  "str ''s1'' \<noteq> []"
  "screen_projectId home_screen \<noteq> project_id shop"
  by (simp_all add: sample_world_def home_screen_def shop_def str_def)

lemma sample_allowed: "rate_allowed (sample_env outcome) (request_of caller b) sample_world"
  by (simp add: rate_allowed_def check_def strict_def sample_world_def sample_env_def)

lemma sample_fresh:
  "new_screen_id (sample_env outcome) \<notin> screen_id ` set (screens sample_world)"
  "new_history_id (sample_env outcome) \<notin> history_id ` set (promptHistory sample_world)"
  by (simp_all add: sample_world_def sample_env_def home_screen_def str_def)

lemma sample_request [simp]:
  "auth_userId (request_of caller b) = caller" "body (request_of caller b) = b"
  by (simp_all add: request_of_def)

lemma extract_login_answer:
  "extractJSON login_answer =
     JObj [(str ''name'', JStr (str ''Login'')), (str ''description'', JStr []),
           (str ''htmlContent'', JStr (str ''<div>Login</div>'')), (str ''cssContent'', JStr [])]"
  by code_simp

lemma extract_generated_name_answer:
  "extractJSON generated_name_answer =
     JObj [(str ''name'', JStr (str ''Generated Screen'')), (str ''description'', JStr []),
           (str ''htmlContent'', JStr (str ''<div>x</div>'')), (str ''cssContent'', JStr [])]"
  by code_simp

lemma generate_login_answer:
  "generateScreenData (generateText (sample_env (Returned login_answer))) p s =
     \<lparr> name = JStr (str ''Login''), description = JStr [],
       htmlContent = JStr (str ''<div>Login</div>''), cssContent = JStr [] \<rparr>"
  by (simp add: generateScreenData_def generate_try_def sample_env_def extract_login_answer
        js_or_def str_def)

lemma generate_generated_name_answer:
  "generateScreenData (generateText (sample_env (Returned generated_name_answer))) p s =
     \<lparr> name = JStr (str ''Generated Screen''), description = JStr [],
       htmlContent = JStr (str ''<div>x</div>''), cssContent = JStr [] \<rparr>"
  by (simp add: generateScreenData_def generate_try_def sample_env_def
        extract_generated_name_answer js_or_def str_def)


lemma sample_env_fields [simp]:
  "generateText (sample_env outcome) q = outcome"
  "now_write (sample_env outcome) = 1001"
  by (simp_all add: sample_env_def)

lemma sample_names:
  "str ''Login'' \<noteq> str ''Generated Screen''"
  by (simp add: str_def)

section \<open>The sample requests\<close>

text \<open>Alice regenerates the screen \<open>s1\<close> of Bob's project, naming her own project \<open>A\<close>.\<close>

lemma sample_update:
  "POST (sample_env (Returned login_answer)) (request_of alice body_update_s1) sample_world =
     (Response 200
        (ScreenBody (update_data (str ''Login'') (str ''<div>Login</div>'') [] 1001 home_screen) None),
      (after_limiter (sample_env (Returned login_answer)) (request_of alice body_update_s1) sample_world)
        \<lparr> model_calls := [fullPrompt (generator_prompt shop (str ''a login screen'')) systemPrompt],
          screens := [update_data (str ''Login'') (str ''<div>Login</div>'') [] 1001 home_screen],
          promptHistory := [created_history (sample_env (Returned login_answer)) (str ''A'')
                              (str ''a login screen'')] \<rparr>)"
  using POST_update_path [where e = "sample_env (Returned login_answer)"
      and req = "request_of alice body_update_s1" and w = sample_world
      and n = "str ''Login''" and h = "str ''<div>Login</div>''" and c = "[]",
      OF sample_allowed _ sample_owners(3) _ safeParse_samples(1) sample_screen(2) sample_projects(1)
         sample_owners(1) sample_screen(1)]
  by (simp add: alice_def parse_body_update_s1 generate_login_answer sample_fresh sample_names)
     (simp add: sample_world_def sample_env_def home_screen_def)

text \<open>Alice asks for a new screen in her project.\<close>

lemma sample_create:
  "POST (sample_env (Returned login_answer)) (request_of alice body_create) sample_world =
     (Response 200
        (ScreenBody (created_screen (sample_env (Returned login_answer)) (str ''A'')
                       (str ''Login'') (str ''<div>Login</div>'') []) None),
      (after_limiter (sample_env (Returned login_answer)) (request_of alice body_create) sample_world)
        \<lparr> model_calls := [fullPrompt (generator_prompt shop (str ''a login screen'')) systemPrompt],
          screens := [home_screen,
                      created_screen (sample_env (Returned login_answer)) (str ''A'')
                        (str ''Login'') (str ''<div>Login</div>'') []],
          promptHistory := [created_history (sample_env (Returned login_answer)) (str ''A'')
                              (str ''a login screen'')] \<rparr>)"
  using POST_create_path [where e = "sample_env (Returned login_answer)"
      and req = "request_of alice body_create" and w = sample_world
      and n = "str ''Login''" and h = "str ''<div>Login</div>''" and c = "[]",
      OF sample_allowed _ sample_owners(3) _ safeParse_samples(3) _ sample_projects(1)
         sample_owners(1)]
  by (simp add: alice_def parse_body_create generate_login_answer sample_fresh sample_names)
     (simp add: sample_world_def)

text \<open>The same, the model answering with a record named \<open>Generated Screen\<close>.\<close>

lemma sample_create_generated_name:
  "POST (sample_env (Returned generated_name_answer)) (request_of alice body_create) sample_world =
     (Response 200
        (ScreenBody (created_screen (sample_env (Returned generated_name_answer)) (str ''A'')
                       (str ''Generated Screen'') (str ''<div>x</div>'') []) (Some True)),
      (after_limiter (sample_env (Returned generated_name_answer)) (request_of alice body_create)
         sample_world)
        \<lparr> model_calls := [fullPrompt (generator_prompt shop (str ''a login screen'')) systemPrompt],
          screens := [home_screen,
                      created_screen (sample_env (Returned generated_name_answer)) (str ''A'')
                        (str ''Generated Screen'') (str ''<div>x</div>'') []],
          promptHistory := [created_history (sample_env (Returned generated_name_answer)) (str ''A'')
                              (str ''a login screen'')] \<rparr>)"
  using POST_create_path [where e = "sample_env (Returned generated_name_answer)"
      and req = "request_of alice body_create" and w = sample_world
      and n = "str ''Generated Screen''" and h = "str ''<div>x</div>''" and c = "[]",
      OF sample_allowed _ sample_owners(3) _ safeParse_samples(3) _ sample_projects(1)
         sample_owners(1)]
  by (simp add: alice_def parse_body_create generate_generated_name_answer sample_fresh)
     (simp add: sample_world_def)

text \<open>Alice sends the empty string as \<open>screenId\<close>.\<close>

lemma sample_empty_screenId:
  "POST (sample_env (Returned login_answer)) (request_of alice body_empty_screenId) sample_world =
     (Response 200
        (ScreenBody (created_screen (sample_env (Returned login_answer)) (str ''A'')
                       (str ''Login'') (str ''<div>Login</div>'') []) None),
      (after_limiter (sample_env (Returned login_answer)) (request_of alice body_empty_screenId)
         sample_world)
        \<lparr> model_calls := [fullPrompt (generator_prompt shop (str ''a login screen'')) systemPrompt],
          screens := [home_screen,
                      created_screen (sample_env (Returned login_answer)) (str ''A'')
                        (str ''Login'') (str ''<div>Login</div>'') []],
          promptHistory := [created_history (sample_env (Returned login_answer)) (str ''A'')
                              (str ''a login screen'')] \<rparr>)"
  using POST_create_path [where e = "sample_env (Returned login_answer)"
      and req = "request_of alice body_empty_screenId" and w = sample_world
      and n = "str ''Login''" and h = "str ''<div>Login</div>''" and c = "[]",
      OF sample_allowed _ sample_owners(3) _ safeParse_samples(2) _ sample_projects(1)
         sample_owners(1)]
  by (simp add: alice_def parse_body_empty_screenId generate_login_answer sample_fresh sample_names)
     (simp add: sample_world_def)

section \<open>The checks of the endpoint\<close>

text \<open>
  C6: a request that passes the rate limit is answered 401 when the caller has no
  identity, whatever its body and the projects are; with an identity and a valid body, 404
  when no project has the id, and 403 with the message \<open>Unauthorized\<close> when the project
  belongs to somebody else. In these three cases nothing but the rate limiter has
  changed. A prompt is sent to the model only when the caller has an identity, the
  project exists and the caller owns it.
\<close>

theorem POST_checks_in_order:
  assumes "rate_allowed e req w"
  shows "(auth_userId req = None \<or> auth_userId req = Some [] \<longrightarrow>
            POST e req w = (Response 401 (ErrorBody (str ''Unauthorized'')), after_limiter e req w)) \<and>
         (\<forall>u j pid prompt sid.
            auth_userId req = Some u \<and> u \<noteq> [] \<and>
            JSON_parse (body req) = Some j \<and> safeParse j = Inr (pid, prompt, sid) \<longrightarrow>
              (find (\<lambda>p. project_id p = pid) (projects w) = None \<longrightarrow>
                 POST e req w = (Response 404 (ErrorBody (str ''Project not found'')), after_limiter e req w)) \<and>
              (\<forall>project. find (\<lambda>p. project_id p = pid) (projects w) = Some project \<and>
                          project_userId project \<noteq> u \<longrightarrow>
                 POST e req w = (Response 403 (ErrorBody (str ''Unauthorized'')), after_limiter e req w))) \<and>
         (model_calls (snd (POST e req w)) \<noteq> model_calls w \<longrightarrow>
            (\<exists>u j pid prompt sid project.
               auth_userId req = Some u \<and> u \<noteq> [] \<and>
               JSON_parse (body req) = Some j \<and> safeParse j = Inr (pid, prompt, sid) \<and>
               find (\<lambda>p. project_id p = pid) (projects w) = Some project \<and>
               project_userId project = u))"
proof (intro conjI)
  show "auth_userId req = None \<or> auth_userId req = Some [] \<longrightarrow>
          POST e req w = (Response 401 (ErrorBody (str ''Unauthorized'')), after_limiter e req w)"
    using assms by (auto simp: POST_def POST_try_def)
  show "\<forall>u j pid prompt sid.
          auth_userId req = Some u \<and> u \<noteq> [] \<and>
          JSON_parse (body req) = Some j \<and> safeParse j = Inr (pid, prompt, sid) \<longrightarrow>
            (find (\<lambda>p. project_id p = pid) (projects w) = None \<longrightarrow>
               POST e req w = (Response 404 (ErrorBody (str ''Project not found'')), after_limiter e req w)) \<and>
            (\<forall>project. find (\<lambda>p. project_id p = pid) (projects w) = Some project \<and>
                        project_userId project \<noteq> u \<longrightarrow>
               POST e req w = (Response 403 (ErrorBody (str ''Unauthorized'')), after_limiter e req w))"
    using assms by (auto simp: POST_def POST_try_def)
  show "model_calls (snd (POST e req w)) \<noteq> model_calls w \<longrightarrow>
          (\<exists>u j pid prompt sid project.
             auth_userId req = Some u \<and> u \<noteq> [] \<and>
             JSON_parse (body req) = Some j \<and> safeParse j = Inr (pid, prompt, sid) \<and>
             find (\<lambda>p. project_id p = pid) (projects w) = Some project \<and>
             project_userId project = u)"
    using assms
    by (auto simp: POST_def POST_try_def split: option.splits sum.splits prod.splits if_splits)
qed

theorem POST_checks_in_order_witness:
  "rate_allowed (sample_env Rejected) (request_of None body_create) sample_world \<and>
   POST (sample_env Rejected) (request_of None body_create) sample_world =
     (Response 401 (ErrorBody (str ''Unauthorized'')),
      after_limiter (sample_env Rejected) (request_of None body_create) sample_world) \<and>
   POST (sample_env Rejected) (request_of alice body_project_Z) sample_world =
     (Response 404 (ErrorBody (str ''Project not found'')),
      after_limiter (sample_env Rejected) (request_of alice body_project_Z) sample_world) \<and>
   POST (sample_env Rejected) (request_of alice body_project_B) sample_world =
     (Response 403 (ErrorBody (str ''Unauthorized'')),
      after_limiter (sample_env Rejected) (request_of alice body_project_B) sample_world) \<and>
   model_calls (snd (POST (sample_env (Returned login_answer)) (request_of alice body_create) sample_world))
     \<noteq> model_calls sample_world \<and>
   (\<exists>project. find (\<lambda>p. project_id p = str ''A'') (projects sample_world) = Some project \<and>
               Some (project_userId project) = alice)"
  using POST_checks_in_order [OF sample_allowed [of Rejected None body_create]]
    POST_checks_in_order [OF sample_allowed [of Rejected alice body_project_Z]]
    POST_checks_in_order [OF sample_allowed [of Rejected alice body_project_B]]
    POST_checks_in_order [OF sample_allowed [of "Returned login_answer" alice body_create]]
  by (simp add: sample_allowed alice_def parse_body_project_Z parse_body_project_B parse_body_create
        safeParse_samples sample_projects sample_owners sample_create [unfolded alice_def])
     (simp add: sample_world_def)

section \<open>Update or create\<close>

text \<open>
  C5, the claim as written fails for the empty string: the body
  \<open>{"projectId":"A","prompt":"a login screen","screenId":""}\<close> is valid and supplies a
  \<open>screenId\<close>, the call succeeds, and the table of screens has one row more.
\<close>

theorem empty_screenId_creates_row:
  "JSON_parse body_empty_screenId =
     Some (JObj [(str ''projectId'', JStr (str ''A'')), (str ''prompt'', JStr (str ''a login screen'')),
                 (str ''screenId'', JStr [])]) \<and>
   safeParse (JObj [(str ''projectId'', JStr (str ''A'')), (str ''prompt'', JStr (str ''a login screen'')),
                    (str ''screenId'', JStr [])])
     = Inr (str ''A'', str ''a login screen'', Some []) \<and>
   fst (POST (sample_env (Returned login_answer)) (request_of alice body_empty_screenId) sample_world) =
     Response 200
       (ScreenBody (created_screen (sample_env (Returned login_answer)) (str ''A'')
                      (str ''Login'') (str ''<div>Login</div>'') []) None) \<and>
   length (screens (snd (POST (sample_env (Returned login_answer))
                           (request_of alice body_empty_screenId) sample_world)))
     = Suc (length (screens sample_world))"
  by (simp add: parse_body_empty_screenId safeParse_samples sample_empty_screenId)
     (simp add: sample_world_def)

text \<open>
  C5, amended: in every call that is answered with success, the generated name, content
  and style are strings, and: if the \<open>screenId\<close> is a non-empty string, a row with that
  id exists, every row with that id has afterwards the generated name, content and style
  and the time of the write in place of its own and is otherwise as it was, every other
  row is as it was, and the table has as many rows as before; if the \<open>screenId\<close> is
  absent or the empty string, the table is the old one followed by one new row, which has
  the project of the request, width 375, height 812 and the generated name, content and
  style.
\<close>

theorem upsert_on_success:
  assumes "POST e req w = (Response 200 b, w')"
    and "JSON_parse (body req) = Some j" and "safeParse j = Inr (pid, prompt, sid)"
    and "find (\<lambda>p. project_id p = pid) (projects w) = Some project"
  shows "\<exists>n h c fb.
           name (generateScreenData (generateText e) (generator_prompt project prompt) systemPrompt) = JStr n \<and>
           htmlContent (generateScreenData (generateText e) (generator_prompt project prompt) systemPrompt) = JStr h \<and>
           cssContent (generateScreenData (generateText e) (generator_prompt project prompt) systemPrompt) = JStr c \<and>
           (\<forall>s. sid = Some s \<and> s \<noteq> [] \<longrightarrow>
              (\<exists>row. find (\<lambda>x. screen_id x = s) (screens w) = Some row \<and>
                 b = ScreenBody (row\<lparr> screen_name := n, screen_htmlContent := h,
                                      screen_cssContent := c, screen_updatedAt := now_write e \<rparr>) fb) \<and>
              screens w' =
                map (\<lambda>x. if screen_id x = s
                         then x\<lparr> screen_name := n, screen_htmlContent := h,
                                 screen_cssContent := c, screen_updatedAt := now_write e \<rparr>
                         else x) (screens w) \<and>
              length (screens w') = length (screens w)) \<and>
           (sid = None \<or> sid = Some [] \<longrightarrow>
              b = ScreenBody
                    \<lparr> screen_id = new_screen_id e, screen_projectId = pid,
                      screen_name = n, screen_htmlContent = h, screen_cssContent = c,
                      screen_x = default_x e, screen_y = default_y e,
                      screen_width = 375, screen_height = 812,
                      screen_updatedAt = now_write e \<rparr> fb \<and>
              screens w' =
                screens w @
                  [\<lparr> screen_id = new_screen_id e, screen_projectId = pid,
                     screen_name = n, screen_htmlContent = h, screen_cssContent = c,
                     screen_x = default_x e, screen_y = default_y e,
                     screen_width = 375, screen_height = 812,
                     screen_updatedAt = now_write e \<rparr>])"
proof -
  from POST_success [OF assms(1)] assms(2,3,4)
  have g: "generate_and_store e project pid prompt sid (after_limiter e req w)
             = (Inr (Response 200 b), w')"
    by auto
  from generate_and_store_success [OF g] obtain n h c where
    gen: "name (generateScreenData (generateText e) (generator_prompt project prompt) systemPrompt) = JStr n"
         "htmlContent (generateScreenData (generateText e) (generator_prompt project prompt) systemPrompt) = JStr h"
         "cssContent (generateScreenData (generateText e) (generator_prompt project prompt) systemPrompt) = JStr c"
    and fin: "(case sid of
              Some s \<Rightarrow>
                if s \<noteq> [] then
                  (\<exists>row. find (\<lambda>x. screen_id x = s) (screens (after_limiter e req w)) = Some row \<and>
                     Response 200 b = Response 200 (ScreenBody (update_data n h c (now_write e) row)
                                         (if n = str ''Generated Screen'' then Some True else None)) \<and>
                     screens w' = map (\<lambda>x. if screen_id x = s then update_data n h c (now_write e) x else x)
                                    (screens (after_limiter e req w)))
                else
                  Response 200 b = Response 200 (ScreenBody (created_screen e pid n h c)
                                      (if n = str ''Generated Screen'' then Some True else None)) \<and>
                  screens w' = screens (after_limiter e req w) @ [created_screen e pid n h c]
            | None \<Rightarrow>
                Response 200 b = Response 200 (ScreenBody (created_screen e pid n h c)
                                    (if n = str ''Generated Screen'' then Some True else None)) \<and>
                screens w' = screens (after_limiter e req w) @ [created_screen e pid n h c])"
    by blast
  show ?thesis
    apply (rule exI [of _ n], rule exI [of _ h], rule exI [of _ c])
    apply (rule exI [of _ "if n = str ''Generated Screen'' then Some True else None"])
    using gen fin
    by (cases sid) (auto simp: created_screen_def update_data_def split: if_splits)
qed

theorem upsert_on_success_witness:
  "fst (POST (sample_env (Returned login_answer)) (request_of alice body_update_s1) sample_world) =
     Response 200
       (ScreenBody
          \<lparr> screen_id = str ''s1'', screen_projectId = str ''B'', screen_name = str ''Login'',
            screen_htmlContent = str ''<div>Login</div>'', screen_cssContent = [],
            screen_x = 40, screen_y = 80, screen_width = 390, screen_height = 844,
            screen_updatedAt = 1001 \<rparr> None) \<and>
   screens (snd (POST (sample_env (Returned login_answer)) (request_of alice body_update_s1) sample_world)) =
     [\<lparr> screen_id = str ''s1'', screen_projectId = str ''B'', screen_name = str ''Login'',
        screen_htmlContent = str ''<div>Login</div>'', screen_cssContent = [],
        screen_x = 40, screen_y = 80, screen_width = 390, screen_height = 844,
        screen_updatedAt = 1001 \<rparr>] \<and>
   screens sample_world = [home_screen] \<and>
   screen_name home_screen = str ''Home'' \<and>
   screen_htmlContent home_screen = str ''<p>home</p>'' \<and>
   screen_updatedAt home_screen = 5 \<and>
   screens (snd (POST (sample_env (Returned login_answer)) (request_of alice body_create) sample_world)) =
     [home_screen,
      \<lparr> screen_id = str ''s2'', screen_projectId = str ''A'', screen_name = str ''Login'',
        screen_htmlContent = str ''<div>Login</div>'', screen_cssContent = [],
        screen_x = 0, screen_y = 0, screen_width = 375, screen_height = 812,
        screen_updatedAt = 1001 \<rparr>]"
  using upsert_on_success [OF sample_update _ safeParse_samples(1) sample_projects(1)]
    upsert_on_success [OF sample_create _ safeParse_samples(3) sample_projects(1)]
  by (simp add: parse_body_update_s1 parse_body_create sample_update sample_create)
     (simp add: sample_world_def home_screen_def update_data_def created_screen_def sample_env_def)

section \<open>What an update leaves alone\<close>

text \<open>
  C9: whatever the call, a row that was in the table of screens is afterwards at the same
  place and differs from what it was in its name, content, style and time stamp at
  most: \<open>x\<close>, \<open>y\<close>, \<open>width\<close> and \<open>height\<close> are the same, and so are the id and the
  project. This holds in particular for the row that an update changes.
\<close>

theorem update_keeps_geometry:
  assumes "POST e req w = (r, w')" and "i < length (screens w)"
  shows "i < length (screens w') \<and>
         (\<exists>n h c t. screens w' ! i = update_data n h c t (screens w ! i)) \<and>
         screen_x (screens w' ! i) = screen_x (screens w ! i) \<and>
         screen_y (screens w' ! i) = screen_y (screens w ! i) \<and>
         screen_width (screens w' ! i) = screen_width (screens w ! i) \<and>
         screen_height (screens w' ! i) = screen_height (screens w ! i) \<and>
         screen_id (screens w' ! i) = screen_id (screens w ! i) \<and>
         screen_projectId (screens w' ! i) = screen_projectId (screens w ! i)"
proof -
  have len: "i < length (screens w')"
    using POST_screens [OF assms(1)] assms(2) by auto
  have upd: "\<exists>n h c t. screens w' ! i = update_data n h c t (screens w ! i)"
    using POST_screens [OF assms(1)]
  proof (elim disjE exE)
    assume "screens w' = screens w"
    then show ?thesis using update_data_same [of "screens w ! i"] by metis
  next
    fix s n h c
    assume m: "screens w' = map (\<lambda>x. if screen_id x = s then update_data n h c (now_write e) x else x)
                              (screens w)"
    show ?thesis
    proof (cases "screen_id (screens w ! i) = s")
      case True
      with m assms(2) have "screens w' ! i = update_data n h c (now_write e) (screens w ! i)" by simp
      then show ?thesis by blast
    next
      case False
      with m assms(2) have "screens w' ! i = screens w ! i" by simp
      then show ?thesis using update_data_same [of "screens w ! i"] by metis
    qed
  next
    fix row
    assume "screens w' = screens w @ [row]"
    with assms(2) have "screens w' ! i = screens w ! i" by (simp add: nth_append)
    then show ?thesis using update_data_same [of "screens w ! i"] by metis
  qed
  from upd obtain n h c t where "screens w' ! i = update_data n h c t (screens w ! i)" by blast
  then have "screen_x (screens w' ! i) = screen_x (screens w ! i)"
    "screen_y (screens w' ! i) = screen_y (screens w ! i)"
    "screen_width (screens w' ! i) = screen_width (screens w ! i)"
    "screen_height (screens w' ! i) = screen_height (screens w ! i)"
    "screen_id (screens w' ! i) = screen_id (screens w ! i)"
    "screen_projectId (screens w' ! i) = screen_projectId (screens w ! i)"
    by (simp_all add: update_data_def)
  with len upd show ?thesis by simp
qed

theorem update_keeps_geometry_witness:
  "0 < length (screens sample_world) \<and>
   screens sample_world ! 0 = home_screen \<and>
   screens (snd (POST (sample_env (Returned login_answer)) (request_of alice body_update_s1)
                   sample_world)) ! 0
     = update_data (str ''Login'') (str ''<div>Login</div>'') [] 1001 home_screen \<and>
   screen_x (screens (snd (POST (sample_env (Returned login_answer)) (request_of alice body_update_s1)
                             sample_world)) ! 0) = 40 \<and>
   screen_y (screens (snd (POST (sample_env (Returned login_answer)) (request_of alice body_update_s1)
                             sample_world)) ! 0) = 80 \<and>
   screen_width (screens (snd (POST (sample_env (Returned login_answer)) (request_of alice body_update_s1)
                                 sample_world)) ! 0) = 390 \<and>
   screen_height (screens (snd (POST (sample_env (Returned login_answer)) (request_of alice body_update_s1)
                                  sample_world)) ! 0) = 844"
proof -
  have i: "0 < length (screens sample_world)"
    by (simp add: sample_world_def)
  from update_keeps_geometry [OF sample_update i] show ?thesis
    by (simp add: sample_update) (simp add: sample_world_def update_data_def home_screen_def)
qed

section \<open>The project of the updated screen is not checked\<close>

text \<open>
  C10: when the caller owns the project named in the body and a row has the
  \<open>screenId\<close>, the update is applied to that row, whatever project the row belongs
  to: no hypothesis relates the project of the row to the project of the body. The row
  gets the generated name, content and style and the time of the write in place of its
  own. (The generated values are strings and the id of the history row is fresh, so that
  the writes succeed.) In the sample world Alice, who owns \<open>A\<close>, overwrites the screen
  \<open>s1\<close> of Bob's project \<open>B\<close>: its name \<open>Home\<close> and content \<open><p>home</p>\<close> become
  \<open>Login\<close> and \<open><div>Login</div>\<close>.
\<close>

theorem update_ignores_screen_project:
  assumes "rate_allowed e req w" and "auth_userId req = Some u" and "u \<noteq> []"
    and "JSON_parse (body req) = Some j" and "safeParse j = Inr (pid, prompt, Some s)" and "s \<noteq> []"
    and "find (\<lambda>p. project_id p = pid) (projects w) = Some project"
    and "project_userId project = u"
    and "find (\<lambda>x. screen_id x = s) (screens w) = Some row"
    and "name (generateScreenData (generateText e) (generator_prompt project prompt) systemPrompt) = JStr n"
    and "htmlContent (generateScreenData (generateText e) (generator_prompt project prompt) systemPrompt) = JStr h"
    and "cssContent (generateScreenData (generateText e) (generator_prompt project prompt) systemPrompt) = JStr c"
    and "new_history_id e \<notin> history_id ` set (promptHistory w)"
  shows "fst (POST e req w) =
           Response 200
             (ScreenBody (row\<lparr> screen_name := n, screen_htmlContent := h,
                               screen_cssContent := c, screen_updatedAt := now_write e \<rparr>)
                (if n = str ''Generated Screen'' then Some True else None)) \<and>
         screens (snd (POST e req w)) =
           map (\<lambda>x. if screen_id x = s
                    then x\<lparr> screen_name := n, screen_htmlContent := h,
                            screen_cssContent := c, screen_updatedAt := now_write e \<rparr>
                    else x) (screens w)"
proof -
  note path = POST_update_path [OF assms]
  have response: "fst (POST e req w) =
      Response 200 (ScreenBody (update_data n h c (now_write e) row)
                      (if n = str ''Generated Screen'' then Some True else None))"
    by (simp add: path)
  have rows: "screens (snd (POST e req w)) =
      map (\<lambda>x. if screen_id x = s then update_data n h c (now_write e) x else x) (screens w)"
    by (simp add: path)
  show ?thesis
    unfolding response rows by (simp add: update_data_def)
qed

theorem update_ignores_screen_project_witness:
  "find (\<lambda>p. project_id p = str ''A'') (projects sample_world) = Some shop \<and>
   Some (project_userId shop) = alice \<and>
   find (\<lambda>x. screen_id x = str ''s1'') (screens sample_world) = Some home_screen \<and>
   screen_projectId home_screen = str ''B'' \<and> project_id shop = str ''A'' \<and>
   screen_projectId home_screen \<noteq> project_id shop \<and>
   screen_name home_screen = str ''Home'' \<and>
   screen_htmlContent home_screen = str ''<p>home</p>'' \<and>
   fst (POST (sample_env (Returned login_answer)) (request_of alice body_update_s1) sample_world) =
     Response 200
       (ScreenBody
          \<lparr> screen_id = str ''s1'', screen_projectId = str ''B'', screen_name = str ''Login'',
            screen_htmlContent = str ''<div>Login</div>'', screen_cssContent = [],
            screen_x = 40, screen_y = 80, screen_width = 390, screen_height = 844,
            screen_updatedAt = 1001 \<rparr> None) \<and>
   screens (snd (POST (sample_env (Returned login_answer)) (request_of alice body_update_s1) sample_world)) =
     [\<lparr> screen_id = str ''s1'', screen_projectId = str ''B'', screen_name = str ''Login'',
        screen_htmlContent = str ''<div>Login</div>'', screen_cssContent = [],
        screen_x = 40, screen_y = 80, screen_width = 390, screen_height = 844,
        screen_updatedAt = 1001 \<rparr>] \<and>
   screens (snd (POST (sample_env (Returned login_answer)) (request_of alice body_update_s1) sample_world))
     \<noteq> screens sample_world"
  using update_ignores_screen_project [where e = "sample_env (Returned login_answer)"
      and req = "request_of alice body_update_s1" and w = sample_world
      and n = "str ''Login''" and h = "str ''<div>Login</div>''" and c = "[]",
      OF sample_allowed _ sample_owners(3) _ safeParse_samples(1) sample_screen(2) sample_projects(1)
         sample_owners(1) sample_screen(1)]
  by (simp add: alice_def parse_body_update_s1 generate_login_answer sample_fresh sample_names
        sample_projects sample_owners sample_screen)
     (simp add: sample_world_def sample_env_def home_screen_def shop_def str_def)

section \<open>The fallback flag\<close>

lemma origin_generated_name_answer:
  "content_origin (Returned generated_name_answer) = FromExtraction"
  by (simp add: content_origin_def extract_generated_name_answer str_def)

text \<open>
  C2, the claim as written fails: when the model answers with a well-formed record
  whose name is \<open>Generated Screen\<close>, the content comes from the extraction of the
  model's answer and the response has \<open>fallback: true\<close>.
\<close>

theorem extracted_record_flagged_fallback:
  "generateText (sample_env (Returned generated_name_answer))
     (fullPrompt (generator_prompt shop (str ''a login screen'')) systemPrompt)
     = Returned generated_name_answer \<and>
   content_origin (Returned generated_name_answer) = FromExtraction \<and>
   fst (POST (sample_env (Returned generated_name_answer)) (request_of alice body_create) sample_world) =
     Response 200
       (ScreenBody (created_screen (sample_env (Returned generated_name_answer)) (str ''A'')
                      (str ''Generated Screen'') (str ''<div>x</div>'') []) (Some True))"
  by (simp add: origin_generated_name_answer sample_create_generated_name)

text \<open>
  C2, amended: in every success response \<open>fallback\<close> is \<open>true\<close> or absent, and it is
  \<open>true\<close> exactly when the name of the returned screen is \<open>Generated Screen\<close>. That
  is so whenever the model call failed and whenever extraction found no record (the
  content is then scraped markup or the fallback markup). When a record was extracted,
  \<open>fallback\<close> is \<open>true\<close> exactly when the name of the record is falsy or is itself
  \<open>Generated Screen\<close>, whether the content of the record was kept or replaced by the
  fallback markup.
\<close>

theorem fallback_flag_follows_name:
  assumes "POST e req w = (Response 200 (ScreenBody scr fb), w')"
    and "JSON_parse (body req) = Some j" and "safeParse j = Inr (pid, prompt, sid)"
    and "find (\<lambda>p. project_id p = pid) (projects w) = Some project"
    and "outcome = generateText e (fullPrompt (generator_prompt project prompt) systemPrompt)"
  shows "(fb = Some True \<or> fb = None) \<and>
         (fb = Some True \<longleftrightarrow> screen_name scr = str ''Generated Screen'') \<and>
         (outcome = Rejected \<longrightarrow> fb = Some True) \<and>
         (\<forall>t. outcome = Returned t \<and> \<not> truthy (extractJSON t) \<longrightarrow> fb = Some True) \<and>
         (\<forall>t. outcome = Returned t \<and> truthy (extractJSON t) \<longrightarrow>
            (fb = Some True \<longleftrightarrow>
               \<not> truthy (field (extractJSON t) (str ''name'')) \<or>
               field (extractJSON t) (str ''name'') = JStr (str ''Generated Screen'')))"
proof -
  let ?sd = "generateScreenData (generateText e) (generator_prompt project prompt) systemPrompt"
  from POST_success [OF assms(1)] assms(2,3,4)
  have g: "generate_and_store e project pid prompt sid (after_limiter e req w)
             = (Inr (Response 200 (ScreenBody scr fb)), w')"
    by auto
  from generate_and_store_flag [OF g] obtain n where
    n: "name ?sd = JStr n" and nm: "screen_name scr = n" and
    r: "fb = (if n = str ''Generated Screen'' then Some True else None)"
    by simp
  have rej: "outcome = Rejected \<Longrightarrow> n = str ''Generated Screen''"
    using n assms(5) by (simp add: generateScreenData_def generate_try_def fallback_record_def)
  have nomatch: "outcome = Returned t \<Longrightarrow> \<not> truthy (extractJSON t) \<Longrightarrow> n = str ''Generated Screen''" for t
    using n assms(5)
    by (auto simp: generateScreenData_def generate_try_def scrape_markup_def fallback_record_def
          split: option.splits)
  have match: "outcome = Returned t \<Longrightarrow> truthy (extractJSON t) \<Longrightarrow>
                 JStr n = js_or (field (extractJSON t) (str ''name'')) (JStr (str ''Generated Screen''))" for t
    using n assms(5) by (simp add: generateScreenData_def generate_try_def Let_def)
  show ?thesis
    using r nm rej nomatch match by (auto simp: js_or_def split: if_splits)
qed

theorem fallback_flag_follows_name_witness:
  "fst (POST (sample_env (Returned login_answer)) (request_of alice body_create) sample_world) =
     Response 200
       (ScreenBody (created_screen (sample_env (Returned login_answer)) (str ''A'')
                      (str ''Login'') (str ''<div>Login</div>'') []) None) \<and>
   truthy (extractJSON login_answer) \<and>
   field (extractJSON login_answer) (str ''name'') = JStr (str ''Login'') \<and>
   screen_name (created_screen (sample_env (Returned login_answer)) (str ''A'')
                  (str ''Login'') (str ''<div>Login</div>'') []) \<noteq> str ''Generated Screen''"
  using fallback_flag_follows_name [OF sample_create _ safeParse_samples(3) sample_projects(1) refl]
  by (simp add: parse_body_create sample_create extract_login_answer created_screen_def sample_names
        str_def)

section \<open>Round trip through the first strategy\<close>

lemma stringify_login:
  "stringify_screen (str ''Login'') [] (str ''<div>Login</div>'') [] = login_answer"
  by (simp add: stringify_screen_def member_def quote_def login_answer_def str_def short_escape_def
        is_high_surrogate_def is_low_surrogate_def)

lemma below_16: "(d::nat) < 16 \<Longrightarrow> d \<in> {15, 14, 13, 12, 11, 10, 9, 8, 7, 6, 5, 4, 3, 2, 1, 0}"
  by (simp only: insert_iff empty_iff) presburger

lemma hex_digits:
  "hex_val (hex_digit 0) = Some 0" "hex_val (hex_digit 1) = Some 1"
  "hex_val (hex_digit 2) = Some 2" "hex_val (hex_digit 3) = Some 3"
  "hex_val (hex_digit 4) = Some 4" "hex_val (hex_digit 5) = Some 5"
  "hex_val (hex_digit 6) = Some 6" "hex_val (hex_digit 7) = Some 7"
  "hex_val (hex_digit 8) = Some 8" "hex_val (hex_digit 9) = Some 9"
  "hex_val (hex_digit 10) = Some 10" "hex_val (hex_digit 11) = Some 11"
  "hex_val (hex_digit 12) = Some 12" "hex_val (hex_digit 13) = Some 13"
  "hex_val (hex_digit 14) = Some 14" "hex_val (hex_digit 15) = Some 15"
  by (simp_all add: hex_digit_def hex_val_def)

lemma hex_val_hex_digit:
  assumes "d < 16"
  shows "hex_val (hex_digit d) = Some d"
proof -
  have "d \<in> {15, 14, 13, 12, 11, 10, 9, 8, 7, 6, 5, 4, 3, 2, 1, 0}"
    by (rule below_16 [OF assms])
  then show ?thesis
    by (elim insertE emptyE) (simp_all only: hex_digits)
qed

lemma hex_split:
  "(n::nat) div 4096 * 4096 + n div 256 mod 16 * 256 + n div 16 mod 16 * 16 + n mod 16 = n"
proof -
  have d256: "n div 16 div 16 = n div 256" and d4096: "n div 256 div 16 = n div 4096"
    by (simp_all add: div_mult2_eq [symmetric])
  have a: "n = n div 16 * 16 + n mod 16" by simp
  have b: "n div 16 = n div 256 * 16 + n div 16 mod 16"
    using div_mult_mod_eq [of "n div 16" 16] unfolding d256 by simp
  have c: "n div 256 = n div 4096 * 16 + n div 256 mod 16"
    using div_mult_mod_eq [of "n div 256" 16] unfolding d4096 by simp
  from a b c show ?thesis by linarith
qed

lemma hex4_unicode_escape:
  "hex4 (hex_digit (unat c div 4096)) (hex_digit (unat c div 256 mod 16))
        (hex_digit (unat c div 16 mod 16)) (hex_digit (unat c mod 16)) = Some c"
proof -
  have lt: "unat c < 65536" using unsigned_less [of c, where ?'a = nat] by simp
  then have top: "unat c div 4096 < 16" by simp
  have "hex4 (hex_digit (unat c div 4096)) (hex_digit (unat c div 256 mod 16))
          (hex_digit (unat c div 16 mod 16)) (hex_digit (unat c mod 16))
        = Some (of_nat (unat c div 4096 * 4096 + unat c div 256 mod 16 * 256
                        + unat c div 16 mod 16 * 16 + unat c mod 16))"
    using top by (simp add: hex4_def hex_val_hex_digit)
  also have "\<dots> = Some c"
    unfolding hex_split by simp
  finally show ?thesis .
qed

lemma parse_unicode_escape:
  "parse_chars (unicode_escape c @ rest) = map_option (\<lambda>(s, r). (c # s, r)) (parse_chars rest)"
  by (simp add: unicode_escape_def hex4_unicode_escape)

lemma short_escape_unescape:
  "short_escape c = Some e \<Longrightarrow> e \<noteq> ch CHR ''u'' \<and> unescape e = Some c"
  by (auto simp: short_escape_def unescape_def split: if_splits)

lemma short_escape_None:
  "short_escape c = None \<Longrightarrow> c \<noteq> 0x22 \<and> c \<noteq> 0x5C"
  by (auto simp: short_escape_def split: if_splits)

lemma surrogate_plain:
  "is_high_surrogate c \<or> is_low_surrogate c \<Longrightarrow> c \<noteq> 0x22 \<and> c \<noteq> 0x5C \<and> \<not> c < 0x20"
  by (auto simp: is_high_surrogate_def is_low_surrogate_def word_le_nat_alt word_less_nat_alt)

lemma parse_plain_char:
  "c \<noteq> 0x22 \<Longrightarrow> c \<noteq> 0x5C \<Longrightarrow> \<not> c < 0x20 \<Longrightarrow>
     parse_chars (c # rest) = map_option (\<lambda>(s, r). (c # s, r)) (parse_chars rest)"
  by simp

lemma parse_short_escape:
  "short_escape c = Some e \<Longrightarrow>
     parse_chars (0x5C # e # rest) = map_option (\<lambda>(s, r). (c # s, r)) (parse_chars rest)"
  using short_escape_unescape [of c e] by simp

text \<open>Reading back what \<open>quote_chars\<close> has written, up to the closing quote.\<close>

lemma parse_quote_chars:
  "parse_chars (quote_chars s @ 0x22 # rest) = Some (s, rest)"
proof (induction s rule: quote_chars.induct)
  case 1
  show ?case by simp
next
  case (2 c cs)
  show ?case
  proof (cases "short_escape c")
    case (Some e)
    with 2 show ?thesis
      using parse_short_escape [OF Some] by simp
  next
    case None
    note plain = short_escape_None [OF None]
    show ?thesis
    proof (cases "c < 0x20")
      case True
      with None 2 show ?thesis by (simp add: parse_unicode_escape)
    next
      case False
      show ?thesis
      proof (cases "is_high_surrogate c")
        case high: True
        show ?thesis
        proof (cases cs)
          case Nil
          with None False high show ?thesis by (simp add: parse_unicode_escape)
        next
          case (Cons d ds)
          show ?thesis
          proof (cases "is_low_surrogate d")
            case True
            with None False high Cons 2 plain surrogate_plain [of d] show ?thesis
              by (simp add: parse_plain_char)
          next
            case low: False
            with None False high Cons 2 show ?thesis by (simp add: parse_unicode_escape)
          qed
        qed
      next
        case nohigh: False
        show ?thesis
        proof (cases "is_low_surrogate c")
          case True
          with None False nohigh 2 show ?thesis by (simp add: parse_unicode_escape)
        next
          case nolow: False
          with None False nohigh 2 plain show ?thesis by (simp add: parse_plain_char)
        qed
      qed
    qed
  qed
qed


lemma parse_quote:
  "parse_value (Suc n) (quote s @ rest) = Some (JStr s, rest)"
  using parse_quote_chars [of s rest] by (simp add: quote_def)

lemma skip_ws_quote: "skip_ws (quote s @ rest) = quote s @ rest"
  by (simp add: skip_ws_def quote_def is_json_ws_def)

lemma skip_ws_plain: "\<not> is_json_ws c \<Longrightarrow> skip_ws (c # cs) = c # cs"
  by (simp add: skip_ws_def)

lemma skip_ws_Nil: "skip_ws [] = []"
  by (simp add: skip_ws_def)

lemma parse_member_key:
  "parse_members (Suc n) (member k v @ rest) =
     (case parse_value n (quote v @ rest) of
        None \<Rightarrow> None
      | Some (x, r3) \<Rightarrow>
          (case skip_ws r3 of
             [] \<Rightarrow> None
           | d # r4 \<Rightarrow>
               if d = ch CHR ''}'' then Some ([(k, x)], r4)
               else if d = ch CHR '','' then
                 map_option (\<lambda>(kvs, t). ((k, x) # kvs, t)) (parse_members n (skip_ws r4))
               else None))"
proof -
  have "member k v @ rest = 0x22 # (quote_chars k @ 0x22 # (ch CHR '':'' # quote v @ rest))"
    by (simp add: member_def quote_def)
  then show ?thesis
    by (simp add: parse_quote_chars skip_ws_quote skip_ws_plain is_json_ws_def
          del: parse_value.simps)
qed

lemma parse_member_more:
  "parse_members (Suc (Suc n)) (member k v @ ch CHR '','' # member k' v' @ rest) =
     map_option (\<lambda>(kvs, t). ((k, JStr v) # kvs, t)) (parse_members (Suc n) (member k' v' @ rest))"
proof -
  have "skip_ws (member k' v' @ rest) = member k' v' @ rest"
    by (simp add: member_def skip_ws_quote)
  then show ?thesis
    unfolding parse_member_key [of "Suc n"]
    by (simp add: parse_quote skip_ws_plain is_json_ws_def
          del: parse_value.simps parse_members.simps)
qed

lemma parse_member_last:
  "parse_members (Suc (Suc n)) (member k v @ ch CHR ''}'' # rest) = Some ([(k, JStr v)], rest)"
  unfolding parse_member_key [of "Suc n"]
  by (simp add: parse_quote skip_ws_plain is_json_ws_def
        del: parse_value.simps parse_members.simps)

lemma parse_object:
  "parse_value (Suc f) (ch CHR ''{'' # member k v @ rest) =
     map_option (\<lambda>(kvs, t). (JObj kvs, t)) (parse_members f (member k v @ rest))"
proof -
  obtain tail where shape: "member k v @ rest = 0x22 # tail"
    by (simp add: member_def quote_def)
  show ?thesis
    unfolding shape
    by (simp add: skip_ws_plain is_json_ws_def del: parse_members.simps)
qed

lemma parse_stringify_screen:
  "parse_value (Suc (Suc (Suc (Suc (Suc (Suc m)))))) (stringify_screen n d h c) =
     Some (JObj [(str ''name'', JStr n), (str ''description'', JStr d),
                 (str ''htmlContent'', JStr h), (str ''cssContent'', JStr c)], [])"
  unfolding stringify_screen_def parse_object parse_member_more parse_member_last
  by simp

lemma length_stringify_screen: "3 \<le> length (stringify_screen n d h c)"
  by (simp add: stringify_screen_def member_def quote_def)

lemma JSON_parse_stringify_screen:
  "JSON_parse (stringify_screen n d h c) =
     Some (JObj [(str ''name'', JStr n), (str ''description'', JStr d),
                 (str ''htmlContent'', JStr h), (str ''cssContent'', JStr c)])"
proof -
  have start: "skip_ws (stringify_screen n d h c) = stringify_screen n d h c"
    by (simp add: stringify_screen_def skip_ws_plain is_json_ws_def)
  from length_stringify_screen [of n d h c]
  obtain m where "Suc (2 * length (stringify_screen n d h c)) = Suc (Suc (Suc (Suc (Suc (Suc m)))))"
    by (metis add_2_eq_Suc' le_Suc_ex mult_2 numeral_3_eq_3 add_Suc add_Suc_right)
  then show ?thesis
    by (simp add: JSON_parse_def start parse_stringify_screen skip_ws_Nil
          del: parse_value.simps)
qed

text \<open>
  C8: for all strings \<open>n\<close>, \<open>d\<close>, \<open>h\<close>, \<open>c\<close>, \<open>extractJSON\<close> applied to the
  serialization of the record with name \<open>n\<close>, description \<open>d\<close>, content \<open>h\<close> and
  style \<open>c\<close> returns, by its first strategy, the object with exactly these four
  members, and reading each of the four fields gives the string that was written.
\<close>

theorem extractJSON_round_trip:
  "extractJSON (stringify_screen n d h c) =
     JObj [(str ''name'', JStr n), (str ''description'', JStr d),
           (str ''htmlContent'', JStr h), (str ''cssContent'', JStr c)] \<and>
   field (extractJSON (stringify_screen n d h c)) (str ''name'') = JStr n \<and>
   field (extractJSON (stringify_screen n d h c)) (str ''description'') = JStr d \<and>
   field (extractJSON (stringify_screen n d h c)) (str ''htmlContent'') = JStr h \<and>
   field (extractJSON (stringify_screen n d h c)) (str ''cssContent'') = JStr c"
  by (simp add: extractJSON_def JSON_parse_stringify_screen) (simp add: str_def)

text \<open>The example of the specification: the text is the serialization of the record it names.\<close>

theorem extractJSON_round_trip_witness:
  "stringify_screen (str ''Login'') [] (str ''<div>Login</div>'') [] = login_answer \<and>
   extractJSON login_answer =
     JObj [(str ''name'', JStr (str ''Login'')), (str ''description'', JStr []),
           (str ''htmlContent'', JStr (str ''<div>Login</div>'')), (str ''cssContent'', JStr [])]"
  using extractJSON_round_trip [of "str ''Login''" "[]" "str ''<div>Login</div>''" "[]"]
  by (simp add: stringify_login)

end
